theory Spec2Isabelle
  imports Complex_Main "HOL-Library.AList" "HOL-Library.Sublist"
begin

section \<open>Common Python values\<close>

text \<open>
  Values that cross the HTTP boundary as JSON. \<open>request.get_json()\<close> hands such a value
  to a handler (Python's \<open>None\<close> is \<open>JNull\<close>), and \<open>jsonify\<close> sends one back.
\<close>

datatype json =
    JNull
  | JBool bool
  | JInt int
  | JFloat real
  | JStr string
  | JList "json list"
  | JDict "(string \<times> json) list"

text \<open>Python truthiness, as used by \<open>x or {}\<close>.\<close>

fun truthy :: "json \<Rightarrow> bool" where
  "truthy JNull = False"
| "truthy (JBool b) = b"
| "truthy (JInt n) = (n \<noteq> 0)"
| "truthy (JFloat x) = (x \<noteq> 0)"
| "truthy (JStr s) = (s \<noteq> [])"
| "truthy (JList xs) = (xs \<noteq> [])"
| "truthy (JDict kvs) = (kvs \<noteq> [])"

datatype py_error = AttributeError | KeyError

text \<open>Decimal rendering of integers, as \<open>str(n)\<close> and the f-string \<open>{n}\<close> do it.\<close>

definition digit_char :: "nat \<Rightarrow> char" where
  "digit_char d = ''0123456789'' ! d"

function str_nat :: "nat \<Rightarrow> string" where
  "str_nat n = (if n < 10 then [digit_char n] else str_nat (n div 10) @ [digit_char (n mod 10)])"
  by pat_completeness auto
termination
  by (relation "measure (\<lambda>n. n)") auto

declare str_nat.simps [simp del]

definition str_int :: "int \<Rightarrow> string" where
  "str_int i = (if i < 0 then CHR ''-'' # str_nat (nat (- i)) else str_nat (nat i))"

text \<open>The format \<open>{n:04d}\<close>: decimal, padded with zeros on the left to four characters.\<close>

definition fmt_04d :: "int \<Rightarrow> string" where
  "fmt_04d i =
     (if i < 0 then CHR ''-'' # replicate (3 - length (str_nat (nat (- i)))) CHR ''0'' @ str_nat (nat (- i))
      else replicate (4 - length (str_nat (nat i))) CHR ''0'' @ str_nat (nat i))"

section \<open>The Spark REST API simulator (spark-simulator.py)\<close>

subsection \<open>Data model\<close>

text \<open>
  An application is a Python dictionary with a fixed set of keys; the nested dictionaries
  under \<open>"stages"\<close> and \<open>"tasks"\<close> have the keys \<open>total\<close>, \<open>completed\<close>, \<open>failed\<close>.
  The name is whatever the caller passed: a string, or any JSON value taken from a request.
\<close>

record progress =
  p_total :: int
  p_completed :: int
  p_failed :: int

record attempt =
  at_attemptId :: int
  at_startTime :: string
  at_endTime :: "string option"
  at_duration :: int
  at_sparkUser :: string
  at_completed :: bool

record application =
  app_id :: string
  app_name :: json
  app_state :: string
  app_startTime :: string
  app_duration :: int
  app_sparkUser :: string
  app_completed :: bool
  app_attempts :: "attempt list"
  app_executors :: int
  app_cores :: int
  app_memoryPerExecutor :: int
  app_stages :: progress
  app_tasks :: progress

text \<open>
  What one call of \<open>create_mock_application\<close> reads from the clock and from the random
  generator. \<open>now_stamp\<close> is \<open>datetime.now().strftime('%Y%m%d%H%M%S')\<close>; the three
  time-derived values are the readings \<open>start_time.isoformat()\<close>,
  \<open>datetime.now().isoformat()\<close> and
  \<open>int((datetime.now() - start_time).total_seconds() * 1000)\<close> (taken twice);
  every other field is the result of the \<open>random.randint\<close> or \<open>random.choice\<close> call
  of the same position in the source.
\<close>

record mock_env =
  now_stamp :: string
  id_suffix :: int
  start_minutes :: int
  start_iso :: string
  end_iso :: string
  duration_ms :: int
  attempt_duration_ms :: int
  r_executors :: int
  r_cores :: int
  r_memory :: int
  r_stages_total :: int
  r_stages_completed :: int
  r_stages_failed :: int
  r_tasks_total :: int
  r_tasks_completed :: int
  r_tasks_failed :: int

text \<open>The ranges the source draws from; \<open>strftime('%Y%m%d%H%M%S')\<close> yields 14 characters.\<close>

definition mock_env_ok :: "mock_env \<Rightarrow> bool" where
  "mock_env_ok e \<longleftrightarrow>
     length (now_stamp e) = 14 \<and>
     1000 \<le> id_suffix e \<and> id_suffix e \<le> 9999 \<and>
     1 \<le> start_minutes e \<and> start_minutes e \<le> 60 \<and>
     2 \<le> r_executors e \<and> r_executors e \<le> 8 \<and>
     4 \<le> r_cores e \<and> r_cores e \<le> 20 \<and>
     r_memory e \<in> set [4096, 8192, 16384] \<and>
     5 \<le> r_stages_total e \<and> r_stages_total e \<le> 20 \<and>
     0 \<le> r_stages_completed e \<and> r_stages_completed e \<le> 15 \<and>
     0 \<le> r_stages_failed e \<and> r_stages_failed e \<le> 2 \<and>
     100 \<le> r_tasks_total e \<and> r_tasks_total e \<le> 1000 \<and>
     50 \<le> r_tasks_completed e \<and> r_tasks_completed e \<le> 900 \<and>
     0 \<le> r_tasks_failed e \<and> r_tasks_failed e \<le> 10"

definition generate_app_id :: "mock_env \<Rightarrow> string" where
  "generate_app_id e = ''app-'' @ now_stamp e @ ''-'' @ str_int (id_suffix e)"

definition create_mock_application :: "json \<Rightarrow> string \<Rightarrow> mock_env \<Rightarrow> string \<times> application" where
  "create_mock_application name state e =
     (generate_app_id e,
      \<lparr> app_id = generate_app_id e,
        app_name = name,
        app_state = state,
        app_startTime = start_iso e,
        app_duration = duration_ms e,
        app_sparkUser = ''dgx-admin'',
        app_completed = (state = ''FINISHED''),
        app_attempts =
          [\<lparr> at_attemptId = 1,
             at_startTime = start_iso e,
             at_endTime = (if state = ''RUNNING'' then None else Some (end_iso e)),
             at_duration = attempt_duration_ms e,
             at_sparkUser = ''dgx-admin'',
             at_completed = (state = ''FINISHED'') \<rparr>],
        app_executors = r_executors e,
        app_cores = r_cores e,
        app_memoryPerExecutor = r_memory e,
        app_stages = \<lparr> p_total = r_stages_total e,
                       p_completed = r_stages_completed e,
                       p_failed = r_stages_failed e \<rparr>,
        app_tasks = \<lparr> p_total = r_tasks_total e,
                      p_completed = r_tasks_completed e,
                      p_failed = r_tasks_failed e \<rparr> \<rparr>)"

subsection \<open>The data store and the metric objects\<close>

text \<open>
  \<open>applications\<close> is a Python dictionary (insertion-ordered, so an association list:
  assignment replaces the value of a present key in place and appends an absent one),
  \<open>completed_apps\<close> a list. The five gauges hold the last value \<open>set\<close>; the histogram
  is kept as the list of observed values, its bucket boundaries being a constant of the
  declaration.
\<close>

record store =
  applications :: "(string \<times> application) list"
  completed_apps :: "application list"
  spark_apps_total :: int
  spark_apps_running :: int
  spark_executors_total :: int
  spark_cores_used :: int
  spark_memory_used :: int
  spark_job_duration :: "real list"

definition spark_job_duration_buckets :: "int list" where
  "spark_job_duration_buckets = [10, 30, 60, 120, 300, 600, 1800, 3600]"

definition empty_store :: store where
  "empty_store =
     \<lparr> applications = [], completed_apps = [],
       spark_apps_total = 0, spark_apps_running = 0, spark_executors_total = 0,
       spark_cores_used = 0, spark_memory_used = 0, spark_job_duration = [] \<rparr>"

definition has_key :: "'k \<Rightarrow> ('k \<times> 'v) list \<Rightarrow> bool" where
  "has_key k d \<longleftrightarrow> k \<in> set (map fst d)"

text \<open>\<open>d.pop(k)\<close>: the value and the dictionary without the key, or KeyError.\<close>

definition dict_pop :: "'k \<Rightarrow> ('k \<times> 'v) list \<Rightarrow> py_error + ('v \<times> ('k \<times> 'v) list)" where
  "dict_pop k d =
     (case map_of d k of None \<Rightarrow> Inl KeyError | Some v \<Rightarrow> Inr (v, AList.delete k d))"

text \<open>
  The module's start-up code: three RUNNING applications are stored under their ids, then
  five FINISHED ones are appended to the history. Iteration \<open>i\<close> has its own
  \<open>random.choice\<close> of a name and its own environment, given by a function of \<open>i\<close>.
\<close>

definition running_names :: "string list" where
  "running_names = [''ETL Pipeline'', ''ML Training'', ''Data Processing'', ''RAPIDS SQL Query'']"

definition finished_names :: "string list" where
  "finished_names = [''Batch Job'', ''Analytics Query'', ''Feature Engineering'']"

fun seed_running :: "(string \<times> mock_env) list \<Rightarrow> store \<Rightarrow> store" where
  "seed_running [] s = s"
| "seed_running ((n, e) # rest) s =
     (case create_mock_application (JStr n) ''RUNNING'' e of
        (aid, app) \<Rightarrow> seed_running rest (s\<lparr>applications := AList.update aid app (applications s)\<rparr>))"

fun seed_finished :: "(string \<times> mock_env) list \<Rightarrow> store \<Rightarrow> store" where
  "seed_finished [] s = s"
| "seed_finished ((n, e) # rest) s =
     (case create_mock_application (JStr n) ''FINISHED'' e of
        (aid, app) \<Rightarrow> seed_finished rest (s\<lparr>completed_apps := completed_apps s @ [app]\<rparr>))"

definition startup :: "(nat \<Rightarrow> string \<times> mock_env) \<Rightarrow> (nat \<Rightarrow> string \<times> mock_env) \<Rightarrow> store" where
  "startup rs fs = seed_finished (map fs [0..<5]) (seed_running (map rs [0..<3]) empty_store)"

text \<open>Seeds as the start-up code can draw them: names from the two lists, values in range.\<close>

definition seeds_ok :: "(nat \<Rightarrow> string \<times> mock_env) \<Rightarrow> (nat \<Rightarrow> string \<times> mock_env) \<Rightarrow> bool" where
  "seeds_ok rs fs \<longleftrightarrow>
     list_all (\<lambda>(n, e). n \<in> set running_names \<and> mock_env_ok e) (map rs [0..<3]) \<and>
     list_all (\<lambda>(n, e). n \<in> set finished_names \<and> mock_env_ok e) (map fs [0..<5])"

text \<open>
  The module binds the global name \<open>app\<close> to the Flask application in its first
  statement. Both seeding loops assign to the same global name (\<open>app_id, app = ...\<close>),
  so after them \<open>app\<close> is the dictionary of the fifth FINISHED job. The decorator
  \<open>@app.route(...)\<close> of the first handler looks up \<open>route\<close> on that dictionary, which
  raises AttributeError: executing the module as it stands ends there, before a handler
  is registered and before the updater thread is started. The handlers and the updater
  are modelled below as the functions the source defines, called on a store.
\<close>

datatype module_app = FlaskApp | JobDict application

definition app_after_seeding :: "(nat \<Rightarrow> string \<times> mock_env) \<Rightarrow> module_app" where
  "app_after_seeding fs =
     JobDict (snd (create_mock_application (JStr (fst (fs 4))) ''FINISHED'' (snd (fs 4))))"

definition route :: "module_app \<Rightarrow> py_error + unit" where
  "route a = (case a of FlaskApp \<Rightarrow> Inr () | JobDict d \<Rightarrow> Inl AttributeError)"

definition module_import ::
    "(nat \<Rightarrow> string \<times> mock_env) \<Rightarrow> (nat \<Rightarrow> string \<times> mock_env) \<Rightarrow> py_error + store" where
  "module_import rs fs =
     (case route (app_after_seeding fs) of
        Inl err \<Rightarrow> Inl err
      | Inr u \<Rightarrow> Inr (startup rs fs))"

subsection \<open>REST handlers\<close>

text \<open>
  A handler returns the HTTP status and what it passed to \<open>jsonify\<close> (or the text it
  returned), together with the store it leaves behind.
\<close>

record job_entry =
  j_jobId :: int
  j_name :: string
  j_submissionTime :: string
  j_completionTime :: "string option"
  j_stageIds :: "int list"
  j_status :: string
  j_numTasks :: int
  j_numActiveTasks :: int
  j_numCompletedTasks :: int
  j_numFailedTasks :: int

record stage_entry =
  s_stageId :: int
  s_attemptId :: int
  s_name :: string
  s_status :: string
  s_numTasks :: int
  s_numActiveTasks :: int
  s_numCompleteTasks :: int
  s_numFailedTasks :: int
  s_executorRunTime :: int
  s_inputBytes :: int
  s_outputBytes :: int
  s_shuffleReadBytes :: int
  s_shuffleWriteBytes :: int

record executor_entry =
  x_id :: string
  x_hostPort :: string
  x_isActive :: bool
  x_rddBlocks :: int
  x_memoryUsed :: int
  x_diskUsed :: int
  x_totalCores :: int
  x_maxTasks :: int
  x_activeTasks :: int
  x_failedTasks :: int
  x_completedTasks :: int
  x_totalTasks :: int
  x_totalDuration :: int
  x_totalGCTime :: int
  x_totalInputBytes :: int
  x_totalShuffleRead :: int
  x_totalShuffleWrite :: int
  x_maxMemory :: int

datatype payload =
    Json json
  | App application
  | Apps "application list"
  | Jobs "job_entry list"
  | Stages "stage_entry list"
  | Executors "executor_entry list"
  | Text string

record response =
  status :: nat
  body :: payload

definition not_found_submission :: response where
  "not_found_submission =
     \<lparr> status = 404,
       body = Json (JDict [(''success'', JBool False), (''message'', JStr ''Submission not found'')]) \<rparr>"

definition get_submission_status :: "string \<Rightarrow> store \<Rightarrow> response" where
  "get_submission_status submission_id s =
     (case map_of (applications s) submission_id of
        Some app \<Rightarrow>
          \<lparr> status = 200,
            body = Json (JDict
              [(''action'', JStr ''SubmissionStatusResponse''),
               (''driverState'', JStr (app_state app)),
               (''serverSparkVersion'', JStr ''3.5.0''),
               (''submissionId'', JStr submission_id),
               (''success'', JBool True),
               (''workerHostPort'', JStr ''192.168.100.10:7078''),
               (''workerId'', JStr ''worker-20241219-192.168.100.10-7078'')]) \<rparr>
      | None \<Rightarrow> not_found_submission)"

text \<open>
  \<open>data = request.get_json() or {}\<close>, then \<open>data.get('appResource', 'Submitted Job')\<close>:
  only a dictionary has \<open>get\<close>; on any other truthy value the attribute lookup raises
  before the store is touched. The argument \<open>request_json\<close> is the value that
  \<open>request.get_json()\<close> returned. Whether it returns for a given request is decided by
  Flask and not by this file: the call is made without \<open>silent\<close> or \<open>force\<close>, so for a
  request that carries no JSON body Flask answers by itself and the rest of the handler
  does not run. The body \<open>null\<close> is parsed to \<open>None\<close>.
\<close>

definition body_or_empty :: "json \<Rightarrow> json" where
  "body_or_empty j = (if truthy j then j else JDict [])"

definition get_appResource :: "json \<Rightarrow> py_error + json" where
  "get_appResource data =
     (case data of
        JDict kvs \<Rightarrow> (case map_of kvs ''appResource'' of
                        Some v \<Rightarrow> Inr v
                      | None \<Rightarrow> Inr (JStr ''Submitted Job''))
      | _ \<Rightarrow> Inl AttributeError)"

definition create_submission :: "json \<Rightarrow> mock_env \<Rightarrow> store \<Rightarrow> py_error + (response \<times> store)" where
  "create_submission request_json e s =
     (case get_appResource (body_or_empty request_json) of
        Inl err \<Rightarrow> Inl err
      | Inr name \<Rightarrow>
          (case create_mock_application name ''RUNNING'' e of
             (aid, app) \<Rightarrow>
               Inr (\<lparr> status = 200,
                      body = Json (JDict
                        [(''action'', JStr ''CreateSubmissionResponse''),
                         (''message'', JStr (''Driver successfully submitted as '' @ aid)),
                         (''serverSparkVersion'', JStr ''3.5.0''),
                         (''submissionId'', JStr aid),
                         (''success'', JBool True)]) \<rparr>,
                    s\<lparr>applications := AList.update aid app (applications s)\<rparr>)))"

text \<open>
  The membership test and \<open>applications.pop(submission_id)\<close> read the same entry of
  the dictionary, so they are one lookup.
\<close>

definition kill_submission :: "string \<Rightarrow> store \<Rightarrow> response \<times> store" where
  "kill_submission submission_id s =
     (case map_of (applications s) submission_id of
        Some app \<Rightarrow>
          (\<lparr> status = 200,
             body = Json (JDict
               [(''action'', JStr ''KillSubmissionResponse''),
                (''message'', JStr (''Kill request for '' @ submission_id @ '' submitted'')),
                (''serverSparkVersion'', JStr ''3.5.0''),
                (''submissionId'', JStr submission_id),
                (''success'', JBool True)]) \<rparr>,
           s\<lparr>applications := AList.delete submission_id (applications s),
             completed_apps :=
               completed_apps s @ [app\<lparr>app_state := ''KILLED'', app_completed := True\<rparr>]\<rparr>)
      | None \<Rightarrow> (not_found_submission, s))"

text \<open>\<open>completed_apps[-10:]\<close> is the last ten entries, or all of them when there are fewer.\<close>

definition last10 :: "'a list \<Rightarrow> 'a list" where
  "last10 xs = drop (length xs - 10) xs"

definition list_applications :: "store \<Rightarrow> response" where
  "list_applications s =
     \<lparr> status = 200, body = Apps (map snd (applications s) @ last10 (completed_apps s)) \<rparr>"

definition get_application :: "string \<Rightarrow> store \<Rightarrow> response" where
  "get_application aid s =
     (case map_of (applications s) aid of
        Some app \<Rightarrow> \<lparr> status = 200, body = App app \<rparr>
      | None \<Rightarrow>
          (case find (\<lambda>app. app_id app = aid) (completed_apps s) of
             Some app \<Rightarrow> \<lparr> status = 200, body = App app \<rparr>
           | None \<Rightarrow> \<lparr> status = 404,
                       body = Json (JDict [(''error'', JStr ''Application not found'')]) \<rparr>))"

subsection \<open>Sub-resource endpoints\<close>

text \<open>
  Each of the three handlers draws the number of entries and then, per iteration \<open>i\<close>,
  the fields of entry \<open>i\<close>; the draws of iteration \<open>i\<close> are given by a function of
  \<open>i\<close>. The parameter \<open>app_id\<close> is the one of the route.
\<close>

record job_draws =
  jd_now1 :: string
  jd_now2 :: string
  jd_done :: real
  jd_nstages :: int
  jd_status :: string
  jd_numTasks :: int
  jd_numActiveTasks :: int
  jd_numCompletedTasks :: int
  jd_numFailedTasks :: int

definition job_draws_ok :: "job_draws \<Rightarrow> bool" where
  "job_draws_ok d \<longleftrightarrow>
     0 \<le> jd_done d \<and> jd_done d < 1 \<and>
     1 \<le> jd_nstages d \<and> jd_nstages d \<le> 5 \<and>
     jd_status d \<in> set [''SUCCEEDED'', ''RUNNING'', ''FAILED''] \<and>
     10 \<le> jd_numTasks d \<and> jd_numTasks d \<le> 100 \<and>
     0 \<le> jd_numActiveTasks d \<and> jd_numActiveTasks d \<le> 10 \<and>
     50 \<le> jd_numCompletedTasks d \<and> jd_numCompletedTasks d \<le> 90 \<and>
     0 \<le> jd_numFailedTasks d \<and> jd_numFailedTasks d \<le> 5"

definition range_int :: "int \<Rightarrow> int list" where
  "range_int n = map int [0..<nat n]"

definition mk_job :: "int \<Rightarrow> job_draws \<Rightarrow> job_entry" where
  "mk_job i d =
     \<lparr> j_jobId = i,
       j_name = ''Job '' @ str_int i,
       j_submissionTime = jd_now1 d,
       j_completionTime = (if jd_done d > 0.3 then Some (jd_now2 d) else None),
       j_stageIds = range_int (jd_nstages d),
       j_status = jd_status d,
       j_numTasks = jd_numTasks d,
       j_numActiveTasks = jd_numActiveTasks d,
       j_numCompletedTasks = jd_numCompletedTasks d,
       j_numFailedTasks = jd_numFailedTasks d \<rparr>"

definition get_application_jobs :: "string \<Rightarrow> int \<Rightarrow> (nat \<Rightarrow> job_draws) \<Rightarrow> response" where
  "get_application_jobs aid n ds =
     \<lparr> status = 200, body = Jobs (map (\<lambda>i. mk_job (int i) (ds i)) [0..<nat n]) \<rparr>"

record stage_draws =
  sd_status :: string
  sd_numTasks :: int
  sd_numActiveTasks :: int
  sd_numCompleteTasks :: int
  sd_numFailedTasks :: int
  sd_executorRunTime :: int
  sd_inputBytes :: int
  sd_outputBytes :: int
  sd_shuffleReadBytes :: int
  sd_shuffleWriteBytes :: int

definition stage_draws_ok :: "stage_draws \<Rightarrow> bool" where
  "stage_draws_ok d \<longleftrightarrow>
     sd_status d \<in> set [''COMPLETE'', ''ACTIVE'', ''PENDING''] \<and>
     10 \<le> sd_numTasks d \<and> sd_numTasks d \<le> 100 \<and>
     0 \<le> sd_numActiveTasks d \<and> sd_numActiveTasks d \<le> 10 \<and>
     50 \<le> sd_numCompleteTasks d \<and> sd_numCompleteTasks d \<le> 90 \<and>
     0 \<le> sd_numFailedTasks d \<and> sd_numFailedTasks d \<le> 2 \<and>
     1000 \<le> sd_executorRunTime d \<and> sd_executorRunTime d \<le> 60000 \<and>
     1000000 \<le> sd_inputBytes d \<and> sd_inputBytes d \<le> 1000000000 \<and>
     1000000 \<le> sd_outputBytes d \<and> sd_outputBytes d \<le> 500000000 \<and>
     0 \<le> sd_shuffleReadBytes d \<and> sd_shuffleReadBytes d \<le> 100000000 \<and>
     0 \<le> sd_shuffleWriteBytes d \<and> sd_shuffleWriteBytes d \<le> 100000000"

definition mk_stage :: "int \<Rightarrow> stage_draws \<Rightarrow> stage_entry" where
  "mk_stage i d =
     \<lparr> s_stageId = i,
       s_attemptId = 0,
       s_name = ''Stage '' @ str_int i,
       s_status = sd_status d,
       s_numTasks = sd_numTasks d,
       s_numActiveTasks = sd_numActiveTasks d,
       s_numCompleteTasks = sd_numCompleteTasks d,
       s_numFailedTasks = sd_numFailedTasks d,
       s_executorRunTime = sd_executorRunTime d,
       s_inputBytes = sd_inputBytes d,
       s_outputBytes = sd_outputBytes d,
       s_shuffleReadBytes = sd_shuffleReadBytes d,
       s_shuffleWriteBytes = sd_shuffleWriteBytes d \<rparr>"

definition get_application_stages :: "string \<Rightarrow> int \<Rightarrow> (nat \<Rightarrow> stage_draws) \<Rightarrow> response" where
  "get_application_stages aid n ds =
     \<lparr> status = 200, body = Stages (map (\<lambda>i. mk_stage (int i) (ds i)) [0..<nat n]) \<rparr>"

record executor_draws =
  xd_rddBlocks :: int
  xd_memoryUsed :: int
  xd_diskUsed :: int
  xd_activeTasks :: int
  xd_failedTasks :: int
  xd_completedTasks :: int
  xd_totalTasks :: int
  xd_totalDuration :: int
  xd_totalGCTime :: int
  xd_totalInputBytes :: int
  xd_totalShuffleRead :: int
  xd_totalShuffleWrite :: int

text \<open>The driver entry draws neither \<open>rddBlocks\<close>, \<open>diskUsed\<close> nor \<open>failedTasks\<close>.\<close>

definition driver_draws_ok :: "executor_draws \<Rightarrow> bool" where
  "driver_draws_ok d \<longleftrightarrow>
     100000000 \<le> xd_memoryUsed d \<and> xd_memoryUsed d \<le> 500000000 \<and>
     0 \<le> xd_activeTasks d \<and> xd_activeTasks d \<le> 4 \<and>
     10 \<le> xd_completedTasks d \<and> xd_completedTasks d \<le> 100 \<and>
     10 \<le> xd_totalTasks d \<and> xd_totalTasks d \<le> 100 \<and>
     10000 \<le> xd_totalDuration d \<and> xd_totalDuration d \<le> 100000 \<and>
     100 \<le> xd_totalGCTime d \<and> xd_totalGCTime d \<le> 1000 \<and>
     1000000 \<le> xd_totalInputBytes d \<and> xd_totalInputBytes d \<le> 100000000 \<and>
     0 \<le> xd_totalShuffleRead d \<and> xd_totalShuffleRead d \<le> 50000000 \<and>
     0 \<le> xd_totalShuffleWrite d \<and> xd_totalShuffleWrite d \<le> 50000000"

definition executor_draws_ok :: "executor_draws \<Rightarrow> bool" where
  "executor_draws_ok d \<longleftrightarrow>
     0 \<le> xd_rddBlocks d \<and> xd_rddBlocks d \<le> 10 \<and>
     500000000 \<le> xd_memoryUsed d \<and> xd_memoryUsed d \<le> 2000000000 \<and>
     0 \<le> xd_diskUsed d \<and> xd_diskUsed d \<le> 1000000000 \<and>
     0 \<le> xd_activeTasks d \<and> xd_activeTasks d \<le> 4 \<and>
     0 \<le> xd_failedTasks d \<and> xd_failedTasks d \<le> 2 \<and>
     50 \<le> xd_completedTasks d \<and> xd_completedTasks d \<le> 500 \<and>
     50 \<le> xd_totalTasks d \<and> xd_totalTasks d \<le> 500 \<and>
     50000 \<le> xd_totalDuration d \<and> xd_totalDuration d \<le> 500000 \<and>
     500 \<le> xd_totalGCTime d \<and> xd_totalGCTime d \<le> 5000 \<and>
     10000000 \<le> xd_totalInputBytes d \<and> xd_totalInputBytes d \<le> 1000000000 \<and>
     0 \<le> xd_totalShuffleRead d \<and> xd_totalShuffleRead d \<le> 500000000 \<and>
     0 \<le> xd_totalShuffleWrite d \<and> xd_totalShuffleWrite d \<le> 500000000"

definition mk_driver :: "executor_draws \<Rightarrow> executor_entry" where
  "mk_driver d =
     \<lparr> x_id = ''driver'',
       x_hostPort = ''192.168.100.10:42000'',
       x_isActive = True,
       x_rddBlocks = 0,
       x_memoryUsed = xd_memoryUsed d,
       x_diskUsed = 0,
       x_totalCores = 4,
       x_maxTasks = 4,
       x_activeTasks = xd_activeTasks d,
       x_failedTasks = 0,
       x_completedTasks = xd_completedTasks d,
       x_totalTasks = xd_totalTasks d,
       x_totalDuration = xd_totalDuration d,
       x_totalGCTime = xd_totalGCTime d,
       x_totalInputBytes = xd_totalInputBytes d,
       x_totalShuffleRead = xd_totalShuffleRead d,
       x_totalShuffleWrite = xd_totalShuffleWrite d,
       x_maxMemory = 4294967296 \<rparr>"

definition mk_executor :: "int \<Rightarrow> executor_draws \<Rightarrow> executor_entry" where
  "mk_executor i d =
     \<lparr> x_id = str_int i,
       x_hostPort = ''192.168.100.'' @ str_int (10 + (i mod 2)) @ '':'' @ str_int (42000 + i),
       x_isActive = True,
       x_rddBlocks = xd_rddBlocks d,
       x_memoryUsed = xd_memoryUsed d,
       x_diskUsed = xd_diskUsed d,
       x_totalCores = 4,
       x_maxTasks = 4,
       x_activeTasks = xd_activeTasks d,
       x_failedTasks = xd_failedTasks d,
       x_completedTasks = xd_completedTasks d,
       x_totalTasks = xd_totalTasks d,
       x_totalDuration = xd_totalDuration d,
       x_totalGCTime = xd_totalGCTime d,
       x_totalInputBytes = xd_totalInputBytes d,
       x_totalShuffleRead = xd_totalShuffleRead d,
       x_totalShuffleWrite = xd_totalShuffleWrite d,
       x_maxMemory = 8589934592 \<rparr>"

definition get_application_executors ::
    "string \<Rightarrow> executor_draws \<Rightarrow> int \<Rightarrow> (nat \<Rightarrow> executor_draws) \<Rightarrow> response" where
  "get_application_executors aid dd n ds =
     \<lparr> status = 200,
       body = Executors (mk_driver dd # map (\<lambda>i. mk_executor (int i) (ds i)) [0..<nat n]) \<rparr>"

subsection \<open>Metrics and health\<close>

text \<open>
  The handler of the route \<open>/metrics/prometheus\<close> sets the five gauges and returns a
  fixed line of text. The exposition of the registry is the work of the client library's
  WSGI application, which the source mounts at \<open>/metrics\<close>; neither that application
  nor the dispatching middleware is part of this model.
\<close>

definition prometheus_metrics :: "store \<Rightarrow> response \<times> store" where
  "prometheus_metrics s =
     (\<lparr> status = 200, body = Text (''# Spark metrics available at /metrics'' @ [CHR 0x0A]) \<rparr>,
      s\<lparr> spark_apps_total := int (length (applications s)) + int (length (completed_apps s)),
         spark_apps_running := int (length (applications s)),
         spark_executors_total := sum_list (map (\<lambda>(k, app). app_executors app) (applications s)),
         spark_cores_used := sum_list (map (\<lambda>(k, app). app_cores app) (applications s)),
         spark_memory_used :=
           sum_list (map (\<lambda>(k, app). app_memoryPerExecutor app * app_executors app * 1024 * 1024)
                         (applications s)) \<rparr>)"

definition health :: response where
  "health =
     \<lparr> status = 200,
       body = Json (JDict [(''status'', JStr ''healthy''), (''service'', JStr ''spark-simulator'')]) \<rparr>"

subsection \<open>The background updater\<close>

text \<open>
  The body of \<open>while True\<close> in \<open>update_jobs\<close>, after the \<open>sleep\<close>. Per application a
  pass draws the task batch (\<open>randint(5, 20)\<close>) and the completion value
  (\<open>random.random()\<close>); after the loop it draws the value that decides on a new job, its
  name and its environment. The values of \<open>random.random()\<close>, the thresholds they are
  compared with and the quotient \<open>duration / 1000\<close> are written as reals; nothing
  proved below depends on how they are rounded. \<open>advance\<close> is the two progress updates
  and \<open>finish\<close> the two assignments on completion, as functions of the job object.
\<close>

record app_tick =
  t_batch :: int
  t_finish :: real

record tick_env =
  per_app :: "string \<Rightarrow> app_tick"
  spawn_r :: real
  spawn_name :: string
  spawn_env :: mock_env

definition spawn_names :: "string list" where
  "spawn_names = [''ETL Pipeline'', ''ML Training'', ''Data Processing'', ''RAPIDS SQL'']"

definition tick_env_ok :: "tick_env \<Rightarrow> bool" where
  "tick_env_ok d \<longleftrightarrow>
     (\<forall>k. 5 \<le> t_batch (per_app d k) \<and> t_batch (per_app d k) \<le> 20 \<and>
          0 \<le> t_finish (per_app d k) \<and> t_finish (per_app d k) < 1) \<and>
     0 \<le> spawn_r d \<and> spawn_r d < 1 \<and>
     spawn_name d \<in> set spawn_names \<and>
     mock_env_ok (spawn_env d)"

definition advance :: "app_tick \<Rightarrow> application \<Rightarrow> application" where
  "advance d app =
     (let app1 =
            (if p_completed (app_stages app) < p_total (app_stages app)
             then app\<lparr>app_stages := (app_stages app)\<lparr>p_completed := p_completed (app_stages app) + 1\<rparr>\<rparr>
             else app);
          app2 =
            (if p_completed (app_tasks app1) < p_total (app_tasks app1)
             then app1\<lparr>app_tasks := (app_tasks app1)
                    \<lparr>p_completed := min (p_completed (app_tasks app1) + t_batch d)
                                        (p_total (app_tasks app1))\<rparr>\<rparr>
             else app1)
      in app2)"

definition finish :: "application \<Rightarrow> application" where
  "finish app = app\<lparr>app_state := ''FINISHED'', app_completed := True\<rparr>"

subsection \<open>Threads: the updater beside the handlers\<close>

text \<open>
  The updater runs on a thread of its own and the server handles requests on threads
  too; nothing is locked. A job is a dictionary object, and the collections and the
  updater's snapshot hold references to it: a write through one reference shows through
  all. So the jobs are kept in a heap, addressed by numbers, \<open>active\<close> and \<open>history\<close>
  hold addresses, and \<open>view\<close> reads the collections and the observed durations
  off the heap; the five gauges, which only \<open>prometheus_metrics\<close> writes, stay at
  their initial value in it.
\<close>

record tstore =
  heap :: "nat \<Rightarrow> application"
  fresh :: nat
  active :: "(string \<times> nat) list"
  history :: "nat list"
  durations :: "real list"

definition view :: "tstore \<Rightarrow> store" where
  "view ts =
     empty_store\<lparr>applications := map (\<lambda>(k, r). (k, heap ts r)) (active ts),
                 completed_apps := map (heap ts) (history ts),
                 spark_job_duration := durations ts\<rparr>"

text \<open>A new dictionary object: the next free address.\<close>

definition alloc :: "application \<Rightarrow> tstore \<Rightarrow> nat \<times> tstore" where
  "alloc a ts = (fresh ts, ts\<lparr>heap := (heap ts)(fresh ts := a), fresh := Suc (fresh ts)\<rparr>)"

text \<open>
  The two handlers that write the collections, on the heap: \<open>create_submission\<close> and
  \<open>kill_submission\<close>, statement by statement as above. The other handlers only read.
\<close>

datatype request = Create json mock_env | Kill string | ReadOnly

definition create_on_heap :: "json \<Rightarrow> mock_env \<Rightarrow> tstore \<Rightarrow> tstore" where
  "create_on_heap request_json e ts =
     (case get_appResource (body_or_empty request_json) of
        Inl err \<Rightarrow> ts
      | Inr name \<Rightarrow>
          (case create_mock_application name ''RUNNING'' e of
             (aid, app) \<Rightarrow>
               (case alloc app ts of
                  (r, ts') \<Rightarrow> ts'\<lparr>active := AList.update aid r (active ts')\<rparr>)))"

definition kill_on_heap :: "string \<Rightarrow> tstore \<Rightarrow> tstore" where
  "kill_on_heap submission_id ts =
     (case map_of (active ts) submission_id of
        Some r \<Rightarrow>
          ts\<lparr>active := AList.delete submission_id (active ts),
             heap := (heap ts)(r := (heap ts r)\<lparr>app_state := ''KILLED'', app_completed := True\<rparr>),
             history := history ts @ [r]\<rparr>
      | None \<Rightarrow> ts)"

fun serve :: "request \<Rightarrow> tstore \<Rightarrow> tstore" where
  "serve (Create j e) ts = create_on_heap j e ts"
| "serve (Kill i) ts = kill_on_heap i ts"
| "serve ReadOnly ts = ts"

text \<open>
  The updater thread sleeps, or is inside the \<open>for\<close> loop over the snapshot
  \<open>list(applications.items())\<close> with the entries still to come, or has ended with an
  exception. An entry of the snapshot is the key and the object, whatever has happened to
  the dictionary since.
\<close>

datatype updater = Sleeping | Iterating tick_env "(string \<times> nat) list" | Crashed py_error

text \<open>
  The body of the loop for one entry: the two progress updates write into the object;
  on completion so do the two assignments of FINISHED and \<open>completed\<close>, then
  \<open>applications.pop(app_id)\<close> takes whatever the dictionary holds under the key (KeyError
  when it holds nothing) and appends it to the history, and the duration of the object is
  observed.
\<close>

definition iterate :: "app_tick \<Rightarrow> string \<Rightarrow> nat \<Rightarrow> tstore \<Rightarrow> tstore \<times> py_error option" where
  "iterate d k r ts =
     (let ts1 = ts\<lparr>heap := (heap ts)(r := advance d (heap ts r))\<rparr> in
      if t_finish d < 0.05 then
        (let ts2 = ts1\<lparr>heap := (heap ts1)(r := finish (heap ts1 r))\<rparr> in
         case dict_pop k (active ts2) of
           Inl err \<Rightarrow> (ts2, Some err)
         | Inr (popped, rest) \<Rightarrow>
             (ts2\<lparr>active := rest,
                  history := history ts2 @ [popped],
                  durations := durations ts2 @ [real_of_int (app_duration (heap ts2 r)) / 1000]\<rparr>,
              None))
      else (ts1, None))"

definition maybe_spawn :: "tick_env \<Rightarrow> tstore \<Rightarrow> tstore" where
  "maybe_spawn d ts =
     (if length (active ts) < 5 \<and> spawn_r d < 0.1 then
        (case create_mock_application (JStr (spawn_name d)) ''RUNNING'' (spawn_env d) of
           (aid, app) \<Rightarrow>
             (case alloc app ts of
                (r, ts') \<Rightarrow> ts'\<lparr>active := AList.update aid r (active ts')\<rparr>))
      else ts)"

text \<open>
  What can happen next: the updater wakes and takes its snapshot; the updater does the
  next entry of its loop, or, the entries done, the statements after the loop, and sleeps
  again; a request is served. A request is served here between two steps of the updater;
  the source also lets threads switch inside a handler and inside the body of the loop,
  which gives further executions and takes none of these away.
\<close>

datatype event = Wake tick_env | Step | Serve request

fun fire :: "event \<Rightarrow> tstore \<times> updater \<Rightarrow> tstore \<times> updater" where
  "fire (Wake d) (ts, Sleeping) = (ts, Iterating d (active ts))"
| "fire (Wake d) (ts, u) = (ts, u)"
| "fire Step (ts, Iterating d []) = (maybe_spawn d ts, Sleeping)"
| "fire Step (ts, Iterating d ((k, r) # rest)) =
     (case iterate (per_app d k) k r ts of
        (ts', None) \<Rightarrow> (ts', Iterating d rest)
      | (ts', Some err) \<Rightarrow> (ts', Crashed err))"
| "fire Step (ts, u) = (ts, u)"
| "fire (Serve q) (ts, u) = (serve q ts, u)"

fun run :: "event list \<Rightarrow> tstore \<times> updater \<Rightarrow> tstore \<times> updater" where
  "run [] c = c"
| "run (e # es) c = run es (fire e c)"

text \<open>One whole pass of the updater with nothing in between.\<close>

definition update_jobs_pass :: "tick_env \<Rightarrow> tstore \<Rightarrow> tstore \<times> updater" where
  "update_jobs_pass d ts = run (Wake d # replicate (Suc (length (active ts))) Step) (ts, Sleeping)"

section \<open>The GPU metrics simulator (gpu-simulator.py)\<close>

subsection \<open>Floating-point arithmetic\<close>

text \<open>
  The metrics are Python floats. Every arithmetic operation on floats returns the exact
  result rounded to a double, and a decimal literal such as \<open>0.3\<close> denotes the double
  nearest to it; the rounding is the parameter \<open>fl\<close> of the definitions below. Of the
  rounding only three properties are used, all of which IEEE-754 rounding to nearest has:
  it is monotone, it leaves a double unchanged, and integers up to \<open>2^53\<close> are doubles.
  Overflow to infinity is not modelled (it would need an energy above \<open>10^308\<close> mJ).
\<close>

definition rounding_ok :: "(real \<Rightarrow> real) \<Rightarrow> bool" where
  "rounding_ok fl \<longleftrightarrow>
     (\<forall>x y. x \<le> y \<longrightarrow> fl x \<le> fl y) \<and>
     (\<forall>x. fl (fl x) = fl x) \<and>
     (\<forall>n::int. \<bar>n\<bar> \<le> 2 ^ 53 \<longrightarrow> fl (of_int n) = of_int n)"

text \<open>\<open>int(x)\<close> of a float truncates towards zero.\<close>

definition py_int :: "real \<Rightarrow> int" where
  "py_int x = (if 0 \<le> x then \<lfloor>x\<rfloor> else \<lceil>x\<rceil>)"

subsection \<open>Devices\<close>

record node_info =
  n_gpu_index :: int
  n_role :: string
  n_port :: int

definition NODES :: "(string \<times> node_info) list" where
  "NODES =
     [(''dgx-spark-01'', \<lparr> n_gpu_index = 0, n_role = ''master'', n_port = 9400 \<rparr>),
      (''dgx-spark-02'', \<lparr> n_gpu_index = 0, n_role = ''worker'', n_port = 9401 \<rparr>)]"

record GPUState =
  hostname :: string
  gpu_index :: int
  uuid :: string
  model :: string
  base_util :: real
  base_temp :: real
  base_power :: real
  total_memory :: int
  energy :: real

text \<open>The four random values \<open>GPUState.__init__\<close> draws.\<close>

record init_draws =
  i_suffix :: int
  i_base_util :: real
  i_base_temp :: real
  i_base_power :: real

definition init_draws_ok :: "init_draws \<Rightarrow> bool" where
  "init_draws_ok d \<longleftrightarrow>
     1000 \<le> i_suffix d \<and> i_suffix d \<le> 9999 \<and>
     60 \<le> i_base_util d \<and> i_base_util d \<le> 90 \<and>
     45 \<le> i_base_temp d \<and> i_base_temp d \<le> 55 \<and>
     80 \<le> i_base_power d \<and> i_base_power d \<le> 120"

definition GPUState_init :: "string \<Rightarrow> int \<Rightarrow> init_draws \<Rightarrow> GPUState" where
  "GPUState_init h idx d =
     \<lparr> hostname = h,
       gpu_index = idx,
       uuid = ''GPU-'' @ h @ ''-'' @ fmt_04d idx @ ''-'' @ str_int (i_suffix d),
       model = ''NVIDIA GB10 Blackwell'',
       base_util = i_base_util d,
       base_temp = i_base_temp d,
       base_power = i_base_power d,
       total_memory = 128 * 1024,
       energy = 0 \<rparr>"

record labels =
  l_gpu :: string
  l_UUID :: string
  l_device :: string
  l_modelName :: string
  l_Hostname :: string

definition get_labels :: "GPUState \<Rightarrow> labels" where
  "get_labels state =
     \<lparr> l_gpu = str_int (gpu_index state),
       l_UUID = uuid state,
       l_device = ''nvidia'' @ str_int (gpu_index state),
       l_modelName = model state,
       l_Hostname = hostname state \<rparr>"

subsection \<open>Gauges\<close>

text \<open>
  The nineteen gauges of the module. Each holds one value per set of label values;
  \<open>Gauge.set\<close> stores \<open>float(value)\<close>, which is exact for the integers set here. The
  registry is the dictionary from gauge and label values to the value last set.
\<close>

datatype gauge =
    DCGM_FI_DEV_GPU_UTIL
  | DCGM_FI_DEV_MEM_COPY_UTIL
  | DCGM_FI_DEV_FB_FREE
  | DCGM_FI_DEV_FB_USED
  | DCGM_FI_DEV_FB_TOTAL
  | DCGM_FI_DEV_GPU_TEMP
  | DCGM_FI_DEV_MEMORY_TEMP
  | DCGM_FI_DEV_POWER_USAGE
  | DCGM_FI_DEV_TOTAL_ENERGY_CONSUMPTION
  | DCGM_FI_DEV_SM_CLOCK
  | DCGM_FI_DEV_MEM_CLOCK
  | DCGM_FI_DEV_PCIE_TX_THROUGHPUT
  | DCGM_FI_DEV_PCIE_RX_THROUGHPUT
  | DCGM_FI_DEV_NVLINK_BANDWIDTH_TOTAL
  | DCGM_FI_PROF_PIPE_TENSOR_ACTIVE
  | DCGM_FI_PROF_DRAM_ACTIVE
  | DCGM_FI_DEV_ECC_SBE_VOL_TOTAL
  | DCGM_FI_DEV_ECC_DBE_VOL_TOTAL
  | DCGM_FI_DEV_XID_ERRORS

type_synonym registry = "gauge \<times> labels \<Rightarrow> real option"

record gpu_sim =
  gpu_states :: "(string \<times> GPUState) list"
  registry :: registry

definition gpu_startup :: "(string \<Rightarrow> init_draws) \<Rightarrow> gpu_sim" where
  "gpu_startup ds =
     \<lparr> gpu_states = map (\<lambda>(name, info). (name, GPUState_init name (n_gpu_index info) (ds name))) NODES,
       registry = (\<lambda>k. None) \<rparr>"

subsection \<open>The update pass\<close>

text \<open>
  The random values one device draws in one pass, in the order of the source:
  \<open>uniform(-5, 5)\<close>, \<open>uniform(0.3, 0.6)\<close>, \<open>uniform(-2, 2)\<close>, \<open>uniform(5, 10)\<close>,
  \<open>uniform(-5, 5)\<close>, \<open>randint(-50, 50)\<close>, \<open>randint(-20, 20)\<close>, twice
  \<open>randint(-100000, 100000)\<close>, \<open>uniform(-10, 10)\<close>, \<open>uniform(0.7, 0.95)\<close> and
  \<open>uniform(0.4, 0.7)\<close>. A value of \<open>uniform(a, b)\<close> lies between the doubles \<open>a\<close> and \<open>b\<close>.
  \<open>math.sin\<close> is taken as the rounded sine; nothing proved below depends on its value,
  the utilisation being clamped.
\<close>

record gpu_draws =
  g_noise :: real
  g_mem_copy :: real
  g_temp :: real
  g_mem_temp :: real
  g_power :: real
  g_sm :: int
  g_mem :: int
  g_tx :: int
  g_rx :: int
  g_nvlink :: real
  g_tensor :: real
  g_dram :: real

definition gpu_draws_ok :: "(real \<Rightarrow> real) \<Rightarrow> gpu_draws \<Rightarrow> bool" where
  "gpu_draws_ok fl d \<longleftrightarrow>
     - 5 \<le> g_noise d \<and> g_noise d \<le> 5 \<and>
     fl 0.3 \<le> g_mem_copy d \<and> g_mem_copy d \<le> fl 0.6 \<and>
     - 2 \<le> g_temp d \<and> g_temp d \<le> 2 \<and>
     5 \<le> g_mem_temp d \<and> g_mem_temp d \<le> 10 \<and>
     - 5 \<le> g_power d \<and> g_power d \<le> 5 \<and>
     - 50 \<le> g_sm d \<and> g_sm d \<le> 50 \<and>
     - 20 \<le> g_mem d \<and> g_mem d \<le> 20 \<and>
     - 100000 \<le> g_tx d \<and> g_tx d \<le> 100000 \<and>
     - 100000 \<le> g_rx d \<and> g_rx d \<le> 100000 \<and>
     - 10 \<le> g_nvlink d \<and> g_nvlink d \<le> 10 \<and>
     fl 0.7 \<le> g_tensor d \<and> g_tensor d \<le> fl 0.95 \<and>
     fl 0.4 \<le> g_dram d \<and> g_dram d \<le> fl 0.7"

definition workload_factor :: "(real \<Rightarrow> real) \<Rightarrow> real \<Rightarrow> real" where
  "workload_factor fl t = fl (fl 0.5 + fl (fl 0.5 * fl (sin (fl (t / 60)))))"

definition util_of :: "(real \<Rightarrow> real) \<Rightarrow> real \<Rightarrow> gpu_draws \<Rightarrow> GPUState \<Rightarrow> real" where
  "util_of fl t d state =
     min 99 (max 10 (fl (fl (fl (base_util state * workload_factor fl t) + g_noise d) + 30)))"

definition power_of :: "(real \<Rightarrow> real) \<Rightarrow> real \<Rightarrow> gpu_draws \<Rightarrow> GPUState \<Rightarrow> real" where
  "power_of fl util d state = fl (fl (base_power state + fl (fl (util / 100) * 80)) + g_power d)"

text \<open>
  The local variables of one turn of the loop of \<open>update_metrics\<close>. They are computed
  from the clock reading, the draws and the fields of the device that never change.
\<close>

record reading =
  v_util :: real
  v_mem_util :: real
  v_mem_used :: int
  v_mem_free :: int
  v_temp :: real
  v_memory_temp :: real
  v_power :: real
  v_sm_clock :: int
  v_mem_clock :: int
  v_pcie_tx :: int
  v_pcie_rx :: int
  v_nvlink_bw :: real
  v_tensor_util :: real
  v_dram_active :: real

definition compute :: "(real \<Rightarrow> real) \<Rightarrow> real \<Rightarrow> gpu_draws \<Rightarrow> GPUState \<Rightarrow> reading" where
  "compute fl t d state =
     (let util = util_of fl t d state;
          mem_util = fl (util * g_mem_copy d);
          mem_used = py_int (fl (of_int (total_memory state) * fl (fl 0.3 + fl (fl 0.5 * fl (util / 100)))));
          mem_free = total_memory state - mem_used;
          temp = fl (fl (base_temp state + fl (fl (util / 100) * 25)) + g_temp d);
          power = power_of fl util d state;
          sm_clock = 1500 + py_int (fl (fl (util / 100) * 800)) + g_sm d;
          mem_clock = 1600 + py_int (fl (fl (util / 100) * 400)) + g_mem d;
          pcie_tx = py_int (fl (fl (util / 100) * 15000000)) + g_tx d;
          pcie_rx = py_int (fl (fl (util / 100) * 12000000)) + g_rx d;
          nvlink_bw = fl (fl (fl (util / 100) * 200) + g_nvlink d);
          tensor_util = fl (util * g_tensor d);
          dram_active = fl (util * g_dram d)
      in \<lparr> v_util = util,
           v_mem_util = mem_util,
           v_mem_used = mem_used,
           v_mem_free = mem_free,
           v_temp = temp,
           v_memory_temp = fl (temp - g_mem_temp d),
           v_power = power,
           v_sm_clock = sm_clock,
           v_mem_clock = mem_clock,
           v_pcie_tx = pcie_tx,
           v_pcie_rx = pcie_rx,
           v_nvlink_bw = nvlink_bw,
           v_tensor_util = tensor_util,
           v_dram_active = dram_active \<rparr>)"

text \<open>
  The statements of the source that write: a call of \<open>Gauge.labels(...).set(value)\<close>;
  the statement \<open>state.energy += power * 5 * 1000\<close>; the call that sets the energy
  gauge to \<open>state.energy\<close> as it is at that moment; and \<open>generate_latest()\<close>, which
  reads the registry for a response. The simulator has no lock, the background loop and
  every scrape run on threads of their own, and a thread can be suspended between any
  two statements. Each statement is one step here; a suspension inside the read, add and
  write of \<open>+=\<close> is not modelled, and nothing below is claimed of the accumulator when
  two passes overlap.
\<close>

datatype gstep =
    SetGauge gauge labels real
  | AddEnergy string real
  | SetEnergyGauge string labels
  | GenerateLatest

fun exec_step :: "(real \<Rightarrow> real) \<Rightarrow> gstep \<Rightarrow> gpu_sim \<Rightarrow> gpu_sim" where
  "exec_step fl (SetGauge g l v) sim = sim\<lparr>registry := (registry sim)((g, l) \<mapsto> v)\<rparr>"
| "exec_step fl (AddEnergy h x) sim =
     sim\<lparr>gpu_states :=
           map (\<lambda>(h', state). if h' = h then (h', state\<lparr>energy := fl (energy state + x)\<rparr>)
                                else (h', state))
               (gpu_states sim)\<rparr>"
| "exec_step fl (SetEnergyGauge h l) sim =
     (case map_of (gpu_states sim) h of
        Some state \<Rightarrow>
          sim\<lparr>registry := (registry sim)((DCGM_FI_DEV_TOTAL_ENERGY_CONSUMPTION, l) \<mapsto> energy state)\<rparr>
      | None \<Rightarrow> sim)"
| "exec_step fl GenerateLatest sim = sim"

fun exec_steps :: "(real \<Rightarrow> real) \<Rightarrow> gstep list \<Rightarrow> gpu_sim \<Rightarrow> gpu_sim" where
  "exec_steps fl [] sim = sim"
| "exec_steps fl (x # xs) sim = exec_steps fl xs (exec_step fl x sim)"

text \<open>The registries that the calls of \<open>generate_latest()\<close> in a sequence of statements read.\<close>

fun responses :: "(real \<Rightarrow> real) \<Rightarrow> gstep list \<Rightarrow> gpu_sim \<Rightarrow> registry list" where
  "responses fl [] sim = []"
| "responses fl (GenerateLatest # xs) sim = registry sim # responses fl xs sim"
| "responses fl (x # xs) sim = responses fl xs (exec_step fl x sim)"

text \<open>The statements of one turn of the loop, for the device \<open>state\<close> named \<open>h\<close>, in order.\<close>

definition device_steps :: "(real \<Rightarrow> real) \<Rightarrow> real \<Rightarrow> gpu_draws \<Rightarrow> string \<Rightarrow> GPUState \<Rightarrow> gstep list" where
  "device_steps fl t d h state =
     (let v = compute fl t d state; l = get_labels state in
      [SetGauge DCGM_FI_DEV_GPU_UTIL l (v_util v),
       SetGauge DCGM_FI_DEV_MEM_COPY_UTIL l (v_mem_util v),
       SetGauge DCGM_FI_DEV_FB_USED l (of_int (v_mem_used v)),
       SetGauge DCGM_FI_DEV_FB_FREE l (of_int (v_mem_free v)),
       SetGauge DCGM_FI_DEV_FB_TOTAL l (of_int (total_memory state)),
       SetGauge DCGM_FI_DEV_GPU_TEMP l (v_temp v),
       SetGauge DCGM_FI_DEV_MEMORY_TEMP l (v_memory_temp v),
       SetGauge DCGM_FI_DEV_POWER_USAGE l (v_power v),
       AddEnergy h (fl (fl (v_power v * 5) * 1000)),
       SetEnergyGauge h l,
       SetGauge DCGM_FI_DEV_SM_CLOCK l (of_int (v_sm_clock v)),
       SetGauge DCGM_FI_DEV_MEM_CLOCK l (of_int (v_mem_clock v)),
       SetGauge DCGM_FI_DEV_PCIE_TX_THROUGHPUT l (of_int (v_pcie_tx v)),
       SetGauge DCGM_FI_DEV_PCIE_RX_THROUGHPUT l (of_int (v_pcie_rx v)),
       SetGauge DCGM_FI_DEV_NVLINK_BANDWIDTH_TOTAL l (v_nvlink_bw v),
       SetGauge DCGM_FI_PROF_PIPE_TENSOR_ACTIVE l (v_tensor_util v),
       SetGauge DCGM_FI_PROF_DRAM_ACTIVE l (v_dram_active v),
       SetGauge DCGM_FI_DEV_ECC_SBE_VOL_TOTAL l 0,
       SetGauge DCGM_FI_DEV_ECC_DBE_VOL_TOTAL l 0,
       SetGauge DCGM_FI_DEV_XID_ERRORS l 0])"

text \<open>
  \<open>update_metrics\<close>: the loop over \<open>gpu_states.items()\<close>. The time \<open>t\<close> is read once;
  the device named \<open>h\<close> draws \<open>ds h\<close>. \<open>pass_steps\<close> are the statements of a call in
  order, \<open>update_metrics\<close> is a call that no other thread interrupts.
\<close>

definition pass_steps ::
    "(real \<Rightarrow> real) \<Rightarrow> real \<Rightarrow> (string \<Rightarrow> gpu_draws) \<Rightarrow> (string \<times> GPUState) list \<Rightarrow> gstep list" where
  "pass_steps fl t ds states = concat (map (\<lambda>(h, state). device_steps fl t (ds h) h state) states)"

definition update_metrics :: "(real \<Rightarrow> real) \<Rightarrow> real \<Rightarrow> (string \<Rightarrow> gpu_draws) \<Rightarrow> gpu_sim \<Rightarrow> gpu_sim" where
  "update_metrics fl t ds sim = exec_steps fl (pass_steps fl t ds (gpu_states sim)) sim"

text \<open>
  The scrape handler \<open>metrics\<close> calls \<open>update_metrics()\<close> and then \<open>generate_latest()\<close>,
  answering 200; its statements are \<open>metrics_steps\<close>. The statements of threads that run
  at the same time come in any order that keeps the order of each thread: an execution of
  two threads is a member of \<open>shuffles\<close> of their statements.
\<close>

definition metrics_steps ::
    "(real \<Rightarrow> real) \<Rightarrow> real \<Rightarrow> (string \<Rightarrow> gpu_draws) \<Rightarrow> (string \<times> GPUState) list \<Rightarrow> gstep list" where
  "metrics_steps fl t ds states = pass_steps fl t ds states @ [GenerateLatest]"

text \<open>
  The background \<open>metrics_loop\<close> calls \<open>update_metrics\<close> every five seconds and never
  returns, so it is given by the calls it has made so far. A run in which no two calls
  overlap is a list of calls of the loop and of scrapes, each with its clock reading and
  draws, and of the read-only routes.
\<close>

fun metrics_loop :: "(real \<Rightarrow> real) \<Rightarrow> (real \<times> (string \<Rightarrow> gpu_draws)) list \<Rightarrow> gpu_sim \<Rightarrow> gpu_sim" where
  "metrics_loop fl [] sim = sim"
| "metrics_loop fl ((t, ds) # rest) sim = metrics_loop fl rest (update_metrics fl t ds sim)"

definition gpu_health :: "gpu_sim \<Rightarrow> json" where
  "gpu_health sim =
     JDict [(''status'', JStr ''healthy''), (''service'', JStr ''gpu-simulator''),
            (''gpus'', JInt (int (length (gpu_states sim))))]"

datatype gpu_op =
    LoopPass real "string \<Rightarrow> gpu_draws"
  | Scrape real "string \<Rightarrow> gpu_draws"
  | HealthCheck

fun gpu_exec :: "(real \<Rightarrow> real) \<Rightarrow> gpu_op \<Rightarrow> gpu_sim \<Rightarrow> gpu_sim" where
  "gpu_exec fl (LoopPass t ds) sim = metrics_loop fl [(t, ds)] sim"
| "gpu_exec fl (Scrape t ds) sim = exec_steps fl (metrics_steps fl t ds (gpu_states sim)) sim"
| "gpu_exec fl HealthCheck sim = sim"

fun gpu_run :: "(real \<Rightarrow> real) \<Rightarrow> gpu_op list \<Rightarrow> gpu_sim \<Rightarrow> gpu_sim" where
  "gpu_run fl [] sim = sim"
| "gpu_run fl (x # xs) sim = gpu_run fl xs (gpu_exec fl x sim)"

fun gpu_op_ok :: "(real \<Rightarrow> real) \<Rightarrow> gpu_op \<Rightarrow> bool" where
  "gpu_op_ok fl (LoopPass t ds) = (\<forall>h. gpu_draws_ok fl (ds h))"
| "gpu_op_ok fl (Scrape t ds) = (\<forall>h. gpu_draws_ok fl (ds h))"
| "gpu_op_ok fl HealthCheck = True"

section \<open>Predicates used in the proofs\<close>

text \<open>
  The addresses held by the active set and the history are those of distinct allocated
  objects: no job object is in both collections or twice in one.
\<close>

definition refs_ok :: "tstore \<Rightarrow> bool" where
  "refs_ok ts \<longleftrightarrow>
     distinct (map snd (active ts) @ history ts) \<and>
     list_all (\<lambda>r. r < fresh ts) (map snd (active ts) @ history ts)"

text \<open>
  The bounds on the values one turn of the loop computes for a device: framebuffer used
  plus free is the total, utilisation lies in 10..99 and the other percentages in 0..100.
\<close>

definition reading_ok :: "int \<Rightarrow> reading \<Rightarrow> bool" where
  "reading_ok tot v \<longleftrightarrow>
     v_mem_used v + v_mem_free v = tot \<and>
     10 \<le> v_util v \<and> v_util v \<le> 99 \<and>
     0 \<le> v_mem_util v \<and> v_mem_util v \<le> 100 \<and>
     0 \<le> v_tensor_util v \<and> v_tensor_util v \<le> 100 \<and>
     0 \<le> v_dram_active v \<and> v_dram_active v \<le> 100"

text \<open>
  Of a device the energy argument needs the base power of \<open>GPUState.__init__\<close> and that
  the accumulator is a double; of a statement, that it adds no negative energy.
\<close>

definition device_ok :: "(real \<Rightarrow> real) \<Rightarrow> GPUState \<Rightarrow> bool" where
  "device_ok fl state \<longleftrightarrow> 80 \<le> base_power state \<and> fl (energy state) = energy state"

fun step_ok :: "gstep \<Rightarrow> bool" where
  "step_ok (AddEnergy h x) = (0 \<le> x)"
| "step_ok s = True"

text \<open>
  The bounds of the four percentage gauges, for a value, for the statement that sets it
  and for a whole registry.
\<close>

fun percent_ok :: "gauge \<Rightarrow> real \<Rightarrow> bool" where
  "percent_ok DCGM_FI_DEV_GPU_UTIL v = (10 \<le> v \<and> v \<le> 99)"
| "percent_ok DCGM_FI_DEV_MEM_COPY_UTIL v = (0 \<le> v \<and> v \<le> 100)"
| "percent_ok DCGM_FI_PROF_PIPE_TENSOR_ACTIVE v = (0 \<le> v \<and> v \<le> 100)"
| "percent_ok DCGM_FI_PROF_DRAM_ACTIVE v = (0 \<le> v \<and> v \<le> 100)"
| "percent_ok g v = True"

fun step_percent_ok :: "gstep \<Rightarrow> bool" where
  "step_percent_ok (SetGauge g l v) = percent_ok g v"
| "step_percent_ok s = True"

definition registry_percent_ok :: "registry \<Rightarrow> bool" where
  "registry_percent_ok r \<longleftrightarrow> (\<forall>g l v. r (g, l) = Some v \<longrightarrow> percent_ok g v)"

section \<open>Concrete inputs\<close>

text \<open>
  Environments, draws and a store with one running application, all within the ranges of
  the source, for evaluating the model.
\<close>

definition env0 :: mock_env where
  "env0 =
     \<lparr> now_stamp = ''20241219101500'', id_suffix = 1234, start_minutes = 7,
       start_iso = ''2024-12-19T10:08:00.000000'', end_iso = ''2024-12-19T10:15:00.000100'',
       duration_ms = 420000, attempt_duration_ms = 420000,
       r_executors = 4, r_cores = 8, r_memory = 8192,
       r_stages_total = 12, r_stages_completed = 3, r_stages_failed = 0,
       r_tasks_total = 400, r_tasks_completed = 120, r_tasks_failed = 3 \<rparr>"

definition env_over :: mock_env where
  "env_over = env0\<lparr> r_stages_total := 5, r_stages_completed := 15,
                     r_tasks_total := 100, r_tasks_completed := 900 \<rparr>"

definition job_draws0 :: job_draws where
  "job_draws0 =
     \<lparr> jd_now1 = ''2024-12-19T10:15:00.000200'', jd_now2 = ''2024-12-19T10:15:00.000300'',
       jd_done = 0.5, jd_nstages = 2, jd_status = ''SUCCEEDED'', jd_numTasks = 40,
       jd_numActiveTasks = 1, jd_numCompletedTasks = 60, jd_numFailedTasks = 0 \<rparr>"

definition stage_draws0 :: stage_draws where
  "stage_draws0 =
     \<lparr> sd_status = ''ACTIVE'', sd_numTasks = 40, sd_numActiveTasks = 2, sd_numCompleteTasks = 60,
       sd_numFailedTasks = 0, sd_executorRunTime = 5000, sd_inputBytes = 2000000,
       sd_outputBytes = 3000000, sd_shuffleReadBytes = 10, sd_shuffleWriteBytes = 20 \<rparr>"

definition executor_draws0 :: executor_draws where
  "executor_draws0 =
     \<lparr> xd_rddBlocks = 1, xd_memoryUsed = 500000000, xd_diskUsed = 0, xd_activeTasks = 2,
       xd_failedTasks = 0, xd_completedTasks = 80, xd_totalTasks = 90, xd_totalDuration = 60000,
       xd_totalGCTime = 700, xd_totalInputBytes = 50000000, xd_totalShuffleRead = 5,
       xd_totalShuffleWrite = 6 \<rparr>"

definition tick0 :: tick_env where
  "tick0 = \<lparr> per_app = (\<lambda>k. \<lparr> t_batch = 20, t_finish = 0.5 \<rparr>), spawn_r = 0.5,
             spawn_name = ''ML Training'', spawn_env = env0\<lparr>id_suffix := 7777\<rparr> \<rparr>"

definition store1 :: store where
  "store1 = empty_store\<lparr>applications :=
      [(''app-20241219101500-1234'', snd (create_mock_application (JStr ''ETL Pipeline'') ''RUNNING'' env0))]\<rparr>"

definition tick_done :: tick_env where
  "tick_done = tick0\<lparr>per_app := (\<lambda>k. \<lparr> t_batch = 5, t_finish = 0.01 \<rparr>)\<rparr>"

definition app0 :: application where
  "app0 = snd (create_mock_application (JStr ''ETL Pipeline'') ''RUNNING'' env0)"

definition heap1 :: tstore where
  "heap1 = \<lparr> heap = (\<lambda>r. app0), fresh = 1, active = [(''app-20241219101500-1234'', 0)],
              history = [], durations = [] \<rparr>"

definition gpu_draws0 :: gpu_draws where
  "gpu_draws0 =
     \<lparr> g_noise = 1, g_mem_copy = 0.5, g_temp = 1, g_mem_temp = 6, g_power = - 2,
       g_sm = 10, g_mem = - 10, g_tx = 500, g_rx = - 500, g_nvlink = 3,
       g_tensor = 0.8, g_dram = 0.5 \<rparr>"

definition init_draws0 :: init_draws where
  "init_draws0 = \<lparr> i_suffix = 4242, i_base_util = 70, i_base_temp = 50, i_base_power = 100 \<rparr>"

text \<open>
  The start-up state of the GPU simulator and the labels of its first device. Two calls
  of \<open>update_metrics\<close> that start at the same clock reading: one of the background loop,
  drawing the noise \<open>-5\<close> (utilisation 60), and one of a scrape, drawing the noise \<open>5\<close>
  (utilisation 70). \<open>mixed_steps\<close> is an execution of the two threads: the loop sets
  utilisation, memory-copy utilisation and \<open>FB_USED\<close> of the first device and is
  suspended; the scrape does its whole pass; the loop sets \<open>FB_FREE\<close>; the scrape calls
  \<open>generate_latest()\<close>; the loop does the rest of its pass.
\<close>

definition sim0 :: gpu_sim where
  "sim0 = gpu_startup (\<lambda>h. init_draws0)"

definition labels1 :: labels where
  "labels1 = get_labels (GPUState_init ''dgx-spark-01'' 0 init_draws0)"

definition loop_steps :: "gstep list" where
  "loop_steps = pass_steps (\<lambda>x. x) 0 (\<lambda>h. gpu_draws0\<lparr>g_noise := - 5\<rparr>) (gpu_states sim0)"

definition scrape_steps :: "gstep list" where
  "scrape_steps = metrics_steps (\<lambda>x. x) 0 (\<lambda>h. gpu_draws0\<lparr>g_noise := 5\<rparr>) (gpu_states sim0)"

definition mixed_steps :: "gstep list" where
  "mixed_steps =
     take 3 loop_steps @ butlast scrape_steps @ [loop_steps ! 3] @ [GenerateLatest] @ drop 4 loop_steps"

section \<open>Properties of the Spark simulator\<close>

subsection \<open>Decimal rendering\<close>

lemma digit_char_inj: "a < 10 \<Longrightarrow> b < 10 \<Longrightarrow> digit_char a = digit_char b \<Longrightarrow> a = b"
  unfolding digit_char_def
  by (subst (asm) nth_eq_iff_index_eq) simp_all

lemma str_nat_nonempty: "str_nat n \<noteq> []"
  by (subst str_nat.simps) simp

lemma str_nat_inj: "str_nat n = str_nat m \<Longrightarrow> n = m"
proof (induction n arbitrary: m rule: str_nat.induct)
  case (1 n)
  show ?case
  proof (cases "n < 10")
    case True
    note n = this
    show ?thesis
    proof (cases "m < 10")
      case True
      with n "1.prems" show ?thesis
        by (simp add: str_nat.simps[of n] str_nat.simps[of m] digit_char_inj)
    next
      case False
      with n "1.prems" show ?thesis
        using str_nat_nonempty[of "m div 10"]
        by (simp add: str_nat.simps[of n] str_nat.simps[of m])
    qed
  next
    case False
    note n = this
    show ?thesis
    proof (cases "m < 10")
      case True
      with n "1.prems" show ?thesis
        using str_nat_nonempty[of "n div 10"]
        by (simp add: str_nat.simps[of n] str_nat.simps[of m])
    next
      case False
      with n "1.prems" have "str_nat (n div 10) = str_nat (m div 10)"
        and "digit_char (n mod 10) = digit_char (m mod 10)"
        by (simp_all add: str_nat.simps[of n] str_nat.simps[of m])
      then have "n div 10 = m div 10" and "n mod 10 = m mod 10"
        using "1.IH"[OF n] by (auto intro: digit_char_inj)
      then show ?thesis
        by (metis div_mult_mod_eq)
    qed
  qed
qed

lemma env0_ok: "mock_env_ok env0"
  by (simp add: mock_env_ok_def env0_def)

lemma id_env0: "generate_app_id env0 = ''app-20241219101500-1234''"
  by (simp add: generate_app_id_def env0_def str_int_def str_nat.simps digit_char_def)

subsection \<open>Dictionary and list facts\<close>

lemma has_key_map_of: "has_key k d \<longleftrightarrow> map_of d k \<noteq> None"
  by (simp add: has_key_def map_of_eq_None_iff)

lemma last_in_last10: "xs \<noteq> [] \<Longrightarrow> last xs \<in> set (last10 xs)"
  unfolding last10_def
  by (metis diff_less last_drop last_in_set length_greater_0_conv drop_eq_Nil not_le zero_less_numeral)

lemma map_of_update_same: "map_of (AList.update k v al) k = Some v"
  by (simp add: update_conv')

lemma map_of_delete_same: "map_of (AList.delete k al) k = None"
  by (simp add: delete_conv')

lemma update_member: "(k, v) \<in> set (AList.update k v al)"
  by (rule map_of_SomeD) (rule map_of_update_same)

subsection \<open>The updater and the metrics handler on concrete values\<close>

text \<open>
  One pass, with nothing served meanwhile, over a store with a single job: without
  completion the job advances by one stage and by the drawn batch of tasks; with
  completion it moves to the history as FINISHED and its duration in seconds is observed.
  The handler \<open>prometheus_metrics\<close> sets the gauges from the store and answers with a
  one-line comment.
\<close>

lemma mock_running_state: "app_state (snd (create_mock_application n st e)) = st"
  by (simp add: create_mock_application_def)

lemma mock_fst: "fst (create_mock_application n st e) = generate_app_id e"
  by (simp add: create_mock_application_def)

lemma app0_progress:
  "app_stages (snd (create_mock_application n st env0)) = \<lparr>p_total = 12, p_completed = 3, p_failed = 0\<rparr>"
  "app_tasks (snd (create_mock_application n st env0)) = \<lparr>p_total = 400, p_completed = 120, p_failed = 3\<rparr>"
  "app_duration (snd (create_mock_application n st env0)) = 420000"
  by (simp_all add: create_mock_application_def env0_def)

lemma app0_values:
  "app_stages app0 = \<lparr>p_total = 12, p_completed = 3, p_failed = 0\<rparr>"
  "app_tasks app0 = \<lparr>p_total = 400, p_completed = 120, p_failed = 3\<rparr>"
  "app_duration app0 = 420000" "app_state app0 = ''RUNNING''"
  by (simp_all add: app0_def create_mock_application_def env0_def)

lemma view_heap1: "view heap1 = store1"
  by (simp add: view_def heap1_def store1_def empty_store_def app0_def)

lemma heap1_by_submission:
  "serve (Create (JDict [(''appResource'', JStr ''ETL Pipeline'')]) env0)
     (heap1\<lparr>fresh := 0, active := []\<rparr>) = heap1"
  by (simp add: create_on_heap_def body_or_empty_def get_appResource_def alloc_def heap1_def
      app0_def mock_fst case_prod_beta id_env0 fun_upd_idem_iff)

lemma pass_example:
  "view (fst (update_jobs_pass tick0 heap1)) =
     store1\<lparr>applications :=
       [(''app-20241219101500-1234'',
         app0\<lparr>app_stages := \<lparr>p_total = 12, p_completed = 4, p_failed = 0\<rparr>,
              app_tasks := \<lparr>p_total = 400, p_completed = 140, p_failed = 3\<rparr>\<rparr>)]\<rparr> \<and>
   snd (update_jobs_pass tick0 heap1) = Sleeping"
  by (simp add: update_jobs_pass_def iterate_def maybe_spawn_def advance_def Let_def view_def
      store1_def tick0_def heap1_def app0_values empty_store_def)

lemma pass_finish_example:
  "view (fst (update_jobs_pass tick_done heap1)) =
     store1\<lparr>applications := [],
       completed_apps :=
         [app0\<lparr>app_stages := \<lparr>p_total = 12, p_completed = 4, p_failed = 0\<rparr>,
               app_tasks := \<lparr>p_total = 400, p_completed = 125, p_failed = 3\<rparr>,
               app_state := ''FINISHED'', app_completed := True\<rparr>],
       spark_job_duration := [420]\<rparr> \<and>
   snd (update_jobs_pass tick_done heap1) = Sleeping"
  by (simp add: update_jobs_pass_def iterate_def maybe_spawn_def advance_def Let_def finish_def
      dict_pop_def view_def store1_def tick0_def tick_done_def heap1_def app0_values empty_store_def)

lemma prometheus_metrics_handler:
  "body (fst (prometheus_metrics s)) = Text (''# Spark metrics available at /metrics'' @ [CHR 0x0A]) \<and>
   status (fst (prometheus_metrics s)) = 200 \<and>
   applications (snd (prometheus_metrics s)) = applications s \<and>
   completed_apps (snd (prometheus_metrics s)) = completed_apps s \<and>
   spark_apps_total (snd (prometheus_metrics s)) = int (length (applications s) + length (completed_apps s)) \<and>
   spark_apps_running (snd (prometheus_metrics s)) = int (length (applications s)) \<and>
   spark_job_duration_buckets = [10, 30, 60, 120, 300, 600, 1800, 3600]"
  by (simp add: prometheus_metrics_def spark_job_duration_buckets_def)

lemma prometheus_example:
  "spark_executors_total (snd (prometheus_metrics store1)) = 4 \<and>
   spark_cores_used (snd (prometheus_metrics store1)) = 8 \<and>
   spark_memory_used (snd (prometheus_metrics store1)) = 34359738368"
  by (simp add: prometheus_metrics_def store1_def empty_store_def create_mock_application_def env0_def)

subsection \<open>Executing the module\<close>

text \<open>
  Whatever the seeding loops draw, the first \<open>@app.route\<close> raises AttributeError, the
  name \<open>app\<close> being bound to a job dictionary by then.
\<close>

lemma module_import_raises: "module_import rs fs = Inl AttributeError"
  by (simp add: module_import_def app_after_seeding_def route_def)

subsection \<open>Killing a submission\<close>

text \<open>
  C7. \<open>kill_submission\<close> with an id that is not a key of \<open>applications\<close> answers 404
  with the body \<open>{"success": false, "message": "Submission not found"}\<close> and returns
  the store exactly as it was: neither the active set nor the history changes.
\<close>

theorem kill_absent_not_found:
  assumes "\<not> has_key submission_id (applications s)"
  shows "kill_submission submission_id s = (not_found_submission, s) \<and>
         status not_found_submission = 404 \<and>
         body not_found_submission =
           Json (JDict [(''success'', JBool False), (''message'', JStr ''Submission not found'')])"
  using assms by (simp add: kill_submission_def not_found_submission_def has_key_map_of)

theorem kill_absent_not_found_witness:
  "\<not> has_key ''app-20241219101500-9999'' (applications store1) \<and>
   kill_submission ''app-20241219101500-9999'' store1 = (not_found_submission, store1) \<and>
   map fst (applications store1) = [''app-20241219101500-1234'']"
proof -
  have h: "\<not> has_key ''app-20241219101500-9999'' (applications store1)"
    by (simp add: has_key_def store1_def)
  show ?thesis
    using h kill_absent_not_found [OF h] by (simp add: store1_def)
qed

subsection \<open>The life of a submission\<close>

text \<open>
  C6. Submitting a job named \<open>name\<close> (for instance "ETL Pipeline") stores it under the
  returned id in state RUNNING, and the listing shows it. Killing that id answers 200 with
  the kill acknowledgement, removes the id from the active set and appends the job, now
  with state KILLED and \<open>completed = True\<close>, to the history. The status of the same id is
  then the 404 answer, because only the active set is looked at, and the listing shows the
  killed job among the last ten entries of the history.
\<close>

theorem submit_list_kill_status_list:
  "\<exists>r1 s1 r2 s2 app.
     create_submission (JDict [(''appResource'', JStr name)]) e s = Inr (r1, s1) \<and>
     status r1 = 200 \<and>
     app = snd (create_mock_application (JStr name) ''RUNNING'' e) \<and>
     app_id app = generate_app_id e \<and> app_name app = JStr name \<and> app_state app = ''RUNNING'' \<and>
     (generate_app_id e, app) \<in> set (applications s1) \<and>
     (\<exists>shown. body (list_applications s1) = Apps shown \<and> app \<in> set shown) \<and>
     kill_submission (generate_app_id e) s1 = (r2, s2) \<and>
     status r2 = 200 \<and>
     body r2 = Json (JDict
       [(''action'', JStr ''KillSubmissionResponse''),
        (''message'', JStr (''Kill request for '' @ generate_app_id e @ '' submitted'')),
        (''serverSparkVersion'', JStr ''3.5.0''),
        (''submissionId'', JStr (generate_app_id e)),
        (''success'', JBool True)]) \<and>
     \<not> has_key (generate_app_id e) (applications s2) \<and>
     completed_apps s2 = completed_apps s1 @ [app\<lparr>app_state := ''KILLED'', app_completed := True\<rparr>] \<and>
     get_submission_status (generate_app_id e) s2 = not_found_submission \<and>
     status not_found_submission = 404 \<and>
     (\<exists>shown. body (list_applications s2) = Apps shown \<and>
        app\<lparr>app_state := ''KILLED'', app_completed := True\<rparr> \<in> set (last10 (completed_apps s2)) \<and>
        app\<lparr>app_state := ''KILLED'', app_completed := True\<rparr> \<in> set shown)"
proof -
  define sid where "sid = generate_app_id e"
  define app where "app = snd (create_mock_application (JStr name) ''RUNNING'' e)"
  define s1 where "s1 = s\<lparr>applications := AList.update sid app (applications s)\<rparr>"
  define killed where "killed = app\<lparr>app_state := ''KILLED'', app_completed := True\<rparr>"
  define s2 where "s2 = s1\<lparr>applications := AList.delete sid (applications s1),
                            completed_apps := completed_apps s1 @ [killed]\<rparr>"
  have cm: "create_mock_application (JStr name) ''RUNNING'' e = (sid, app)"
    by (simp add: sid_def app_def create_mock_application_def)
  have create: "\<exists>r1. create_submission (JDict [(''appResource'', JStr name)]) e s = Inr (r1, s1) \<and> status r1 = 200"
    by (simp add: create_submission_def body_or_empty_def get_appResource_def cm s1_def)
  have fields: "app_id app = sid" "app_name app = JStr name" "app_state app = ''RUNNING''"
    by (simp_all add: app_def sid_def create_mock_application_def)
  have lookup1: "map_of (applications s1) sid = Some app"
    by (simp add: s1_def map_of_update_same)
  have mem1: "(sid, app) \<in> set (applications s1)"
    by (simp add: s1_def update_member)
  then have "app \<in> snd ` set (applications s1)"
    by force
  then have list1: "\<exists>shown. body (list_applications s1) = Apps shown \<and> app \<in> set shown"
    by (simp add: list_applications_def)
  have kill: "kill_submission sid s1 =
      (\<lparr> status = 200,
         body = Json (JDict
           [(''action'', JStr ''KillSubmissionResponse''),
            (''message'', JStr (''Kill request for '' @ sid @ '' submitted'')),
            (''serverSparkVersion'', JStr ''3.5.0''),
            (''submissionId'', JStr sid),
            (''success'', JBool True)]) \<rparr>, s2)"
    using lookup1
    by (simp add: kill_submission_def has_key_map_of dict_pop_def s2_def killed_def)
  have gone: "\<not> has_key sid (applications s2)"
    by (simp add: has_key_map_of s2_def map_of_delete_same)
  have hist: "completed_apps s2 = completed_apps s1 @ [killed]"
    by (simp add: s2_def)
  have st: "get_submission_status sid s2 = not_found_submission"
    using gone by (simp add: get_submission_status_def has_key_map_of)
  have "killed \<in> set (last10 (completed_apps s2))"
    using last_in_last10[of "completed_apps s2"] by (simp add: hist)
  then have list2: "\<exists>shown. body (list_applications s2) = Apps shown \<and>
      killed \<in> set (last10 (completed_apps s2)) \<and> killed \<in> set shown"
    by (simp add: list_applications_def)
  from create obtain r1 where r1: "create_submission (JDict [(''appResource'', JStr name)]) e s = Inr (r1, s1)"
    "status r1 = 200" by blast
  show ?thesis
    apply (rule exI[of _ r1], rule exI[of _ s1])
    apply (rule exI[of _ "fst (kill_submission sid s1)"], rule exI[of _ s2], rule exI[of _ app])
    using r1 fields mem1 list1 kill gone hist st list2
    by (simp add: sid_def[symmetric] app_def[symmetric] killed_def[symmetric] not_found_submission_def)
qed

subsection \<open>The handlers on shared objects\<close>

text \<open>
  On a heap whose collections hold distinct allocated objects, the handlers that write
  leave the collections as the handlers on values do: the properties of a handler called
  alone carry over to the store of shared objects.
\<close>

lemma map_of_view:
  "map_of (map (\<lambda>(k, r). (k, h r)) al) i = map_option h (map_of al i)"
  by (induction al) auto

lemma delete_view:
  "AList.delete i (map (\<lambda>(k, r). (k, h r)) al) = map (\<lambda>(k, r). (k, h r)) (AList.delete i al)"
  by (induction al) (auto simp: AList.delete_eq)

lemma update_view:
  "AList.update i (h r) (map (\<lambda>(k, r). (k, h r)) al) = map (\<lambda>(k, r). (k, h r)) (AList.update i r al)"
  by (induction al) auto

lemma kill_on_heap_view:
  assumes "refs_ok ts"
  shows "applications (view (kill_on_heap i ts)) = applications (snd (kill_submission i (view ts))) \<and>
         completed_apps (view (kill_on_heap i ts)) = completed_apps (snd (kill_submission i (view ts)))"
proof (cases "map_of (active ts) i")
  case None
  then show ?thesis
    by (simp add: kill_on_heap_def kill_submission_def view_def map_of_view)
next
  case (Some r)
  then have mem: "(i, r) \<in> set (active ts)"
    by (rule map_of_SomeD)
  from assms have d: "distinct (map snd (active ts))" and h: "r \<notin> set (history ts)"
    using mem by (auto simp: refs_ok_def)
  have other: "r' \<noteq> r" if "(k, r') \<in> set (AList.delete i (active ts))" for k r'
  proof -
    from that have "(k, r') \<in> set (active ts)" "k \<noteq> i"
      by (auto simp: AList.delete_eq)
    with mem d show ?thesis
      by (metis distinct_map inj_on_def snd_conv prod.inject)
  qed
  have a: "map (\<lambda>(k, r'). (k, ((heap ts)(r := x)) r')) (AList.delete i (active ts)) =
           map (\<lambda>(k, r'). (k, heap ts r')) (AList.delete i (active ts))" for x
    using other by (intro map_cong) auto
  have b: "map ((heap ts)(r := x)) (history ts) = map (heap ts) (history ts)" for x
    using h by (intro map_cong) auto
  show ?thesis
    using Some other h
    by (auto simp: kill_on_heap_def kill_submission_def view_def map_of_view delete_view)
qed

lemma create_on_heap_view:
  assumes "refs_ok ts" and "create_submission j e (view ts) = Inr (resp, s')"
  shows "applications (view (create_on_heap j e ts)) = applications s' \<and>
         completed_apps (view (create_on_heap j e ts)) = completed_apps s'"
proof -
  from assms(2) obtain name where n: "get_appResource (body_or_empty j) = Inr name"
    by (auto simp: create_submission_def split: sum.splits)
  let ?app = "snd (create_mock_application name ''RUNNING'' e)"
  let ?h = "(heap ts)(fresh ts := ?app)"
  from assms(1) have lt: "\<And>k r. (k, r) \<in> set (active ts) \<Longrightarrow> r \<noteq> fresh ts"
    "\<And>r. r \<in> set (history ts) \<Longrightarrow> r \<noteq> fresh ts"
    by (force simp: refs_ok_def list_all_iff)+
  have a: "map (\<lambda>(k, r). (k, heap ts r)) (active ts) = map (\<lambda>(k, r). (k, ?h r)) (active ts)"
    using lt(1) by (intro map_cong) auto
  have b: "map ?h (history ts) = map (heap ts) (history ts)"
    using lt(2) by (intro map_cong) auto
  have c: "AList.update k ?app (map (\<lambda>(k, r). (k, ?h r)) (active ts)) =
           map (\<lambda>(k, r). (k, ?h r)) (AList.update k (fresh ts) (active ts))" for k
    using update_view[of k ?h "fresh ts" "active ts"] by simp
  let ?k = "fst (create_mock_application name ''RUNNING'' e)"
  from assms(2) n have s': "applications s' = AList.update ?k ?app (applications (view ts))"
    "completed_apps s' = completed_apps (view ts)"
    by (auto simp: create_submission_def case_prod_beta)
  have t: "create_on_heap j e ts =
      ts\<lparr>heap := ?h, fresh := Suc (fresh ts), active := AList.update ?k (fresh ts) (active ts)\<rparr>"
    using n by (simp add: create_on_heap_def alloc_def case_prod_beta)
  have "applications (view (create_on_heap j e ts)) =
          map (\<lambda>(k, r). (k, ?h r)) (AList.update ?k (fresh ts) (active ts))"
    unfolding t by (simp add: view_def)
  also have "\<dots> = AList.update ?k ?app (map (\<lambda>(k, r). (k, ?h r)) (active ts))"
    by (rule c[symmetric])
  also have "\<dots> = AList.update ?k ?app (applications (view ts))"
    unfolding a[symmetric] by (simp add: view_def)
  finally have 1: "applications (view (create_on_heap j e ts)) = applications s'"
    by (simp only: s')
  have "completed_apps (view (create_on_heap j e ts)) = map ?h (history ts)"
    unfolding t by (simp add: view_def)
  also have "\<dots> = completed_apps (view ts)"
    unfolding b by (simp add: view_def)
  finally have 2: "completed_apps (view (create_on_heap j e ts)) = completed_apps s'"
    by (simp only: s')
  from 1 2 show ?thesis by simp
qed

subsection \<open>A kill during a pass of the updater\<close>

lemma tick_done_ok: "tick_env_ok tick_done"
  by (simp add: tick_env_ok_def tick_done_def tick0_def spawn_names_def mock_env_ok_def env0_def)

text \<open>
  C5 at a failing execution. The store holds one running job. The updater wakes and takes
  its snapshot \<open>list(applications.items())\<close>, which holds the job object. Before the
  loop reaches that entry a kill request for the job is served: the job leaves the active
  set and is appended to the history with state KILLED. The loop then does the entry,
  drawing a completion value below 0.05 (here 0.01): it writes the progress and the state
  FINISHED into the object of its snapshot, which is the entry of the history, so the
  state of the killed job changes to FINISHED; \<open>applications.pop(app_id)\<close> then finds
  no such key and the KeyError ends the updater thread.
\<close>

theorem kill_during_pass_overwritten:
  "tick_env_ok tick_done \<and>
   completed_apps (view (fst (run [Wake tick_done, Serve (Kill ''app-20241219101500-1234'')]
       (heap1, Sleeping)))) =
     [app0\<lparr>app_state := ''KILLED'', app_completed := True\<rparr>] \<and>
   completed_apps (view (fst (run [Wake tick_done, Serve (Kill ''app-20241219101500-1234''), Step]
       (heap1, Sleeping)))) =
     [app0\<lparr>app_stages := \<lparr>p_total = 12, p_completed = 4, p_failed = 0\<rparr>,
           app_tasks := \<lparr>p_total = 400, p_completed = 125, p_failed = 3\<rparr>,
           app_state := ''FINISHED'', app_completed := True\<rparr>] \<and>
   snd (run [Wake tick_done, Serve (Kill ''app-20241219101500-1234''), Step] (heap1, Sleeping)) =
     Crashed KeyError"
proof -
  have "completed_apps (view (fst (run [Wake tick_done, Serve (Kill ''app-20241219101500-1234'')]
       (heap1, Sleeping)))) =
     [app0\<lparr>app_state := ''KILLED'', app_completed := True\<rparr>] \<and>
   completed_apps (view (fst (run [Wake tick_done, Serve (Kill ''app-20241219101500-1234''), Step]
       (heap1, Sleeping)))) =
     [app0\<lparr>app_stages := \<lparr>p_total = 12, p_completed = 4, p_failed = 0\<rparr>,
           app_tasks := \<lparr>p_total = 400, p_completed = 125, p_failed = 3\<rparr>,
           app_state := ''FINISHED'', app_completed := True\<rparr>] \<and>
   snd (run [Wake tick_done, Serve (Kill ''app-20241219101500-1234''), Step] (heap1, Sleeping)) =
     Crashed KeyError"
    by (simp add: kill_on_heap_def iterate_def advance_def Let_def finish_def
        dict_pop_def view_def tick0_def tick_done_def heap1_def app0_values)
  with tick_done_ok show ?thesis
    by (rule conjI)
qed

subsection \<open>Submission ids and progress\<close>

lemma str_int_inj: "0 \<le> a \<Longrightarrow> 0 \<le> b \<Longrightarrow> str_int a = str_int b \<Longrightarrow> a = b"
  using str_nat_inj[of "nat a" "nat b"] by (simp add: str_int_def)

lemma generate_app_id_eq_iff:
  assumes "mock_env_ok e" "mock_env_ok e'"
  shows "generate_app_id e = generate_app_id e' \<longleftrightarrow>
           now_stamp e = now_stamp e' \<and> id_suffix e = id_suffix e'"
proof
  assume eq: "generate_app_id e = generate_app_id e'"
  from assms have len: "length (now_stamp e) = length (now_stamp e')"
    and pos: "0 \<le> id_suffix e" "0 \<le> id_suffix e'"
    by (simp_all add: mock_env_ok_def)
  from eq have "now_stamp e @ (''-'' @ str_int (id_suffix e)) = now_stamp e' @ (''-'' @ str_int (id_suffix e'))"
    by (simp add: generate_app_id_def)
  with len have "now_stamp e = now_stamp e'" "str_int (id_suffix e) = str_int (id_suffix e')"
    by simp_all
  with pos show "now_stamp e = now_stamp e' \<and> id_suffix e = id_suffix e'"
    by (auto dest: str_int_inj)
next
  assume "now_stamp e = now_stamp e' \<and> id_suffix e = id_suffix e'"
  then show "generate_app_id e = generate_app_id e'"
    by (simp add: generate_app_id_def)
qed

lemma distinct_map_cong_iff:
  assumes "\<And>x y. x \<in> set xs \<Longrightarrow> y \<in> set xs \<Longrightarrow> (f x = f y) = (g x = g y)"
  shows "distinct (map f xs) = distinct (map g xs)"
  using assms
proof (induction xs)
  case Nil
  then show ?case by simp
next
  case (Cons x xs)
  have "f x \<in> f ` set xs \<longleftrightarrow> g x \<in> g ` set xs"
  proof
    assume "f x \<in> f ` set xs"
    then obtain y where y: "y \<in> set xs" "f x = f y" by auto
    then have "g x = g y" using Cons.prems[of x y] by simp
    with y show "g x \<in> g ` set xs" by auto
  next
    assume "g x \<in> g ` set xs"
    then obtain y where y: "y \<in> set xs" "g x = g y" by auto
    then have "f x = f y" using Cons.prems[of x y] by simp
    with y show "f x \<in> f ` set xs" by auto
  qed
  moreover have "distinct (map f xs) = distinct (map g xs)"
    using Cons by simp
  ultimately show ?case by simp
qed

text \<open>
  C2, as the code has it. A submission with an object body stores a job in state RUNNING
  under the returned id \<open>app-<timestamp>-<suffix>\<close>; its progress counters are not zero
  but the values drawn by \<open>create_mock_application\<close> (completed stages in 0..15,
  completed tasks in 50..900). The status of that id, asked right away, is RUNNING. The ids
  of a series of submissions are pairwise distinct exactly when their pairs of timestamp
  (to the second) and random suffix are.
\<close>

theorem submit_running_drawn_progress:
  assumes "list_all mock_env_ok (e # es)"
  shows "\<exists>r s1 app.
     create_submission (JDict [(''appResource'', JStr name)]) e s = Inr (r, s1) \<and>
     status r = 200 \<and>
     body r = Json (JDict
        [(''action'', JStr ''CreateSubmissionResponse''),
         (''message'', JStr (''Driver successfully submitted as '' @ generate_app_id e)),
         (''serverSparkVersion'', JStr ''3.5.0''),
         (''submissionId'', JStr (generate_app_id e)),
         (''success'', JBool True)]) \<and>
     map_of (applications s1) (generate_app_id e) = Some app \<and>
     app_state app = ''RUNNING'' \<and>
     p_completed (app_stages app) = r_stages_completed e \<and>
     0 \<le> p_completed (app_stages app) \<and> p_completed (app_stages app) \<le> 15 \<and>
     p_completed (app_tasks app) = r_tasks_completed e \<and>
     50 \<le> p_completed (app_tasks app) \<and> p_completed (app_tasks app) \<le> 900 \<and>
     get_submission_status (generate_app_id e) s1 =
       \<lparr> status = 200,
         body = Json (JDict
           [(''action'', JStr ''SubmissionStatusResponse''),
            (''driverState'', JStr ''RUNNING''),
            (''serverSparkVersion'', JStr ''3.5.0''),
            (''submissionId'', JStr (generate_app_id e)),
            (''success'', JBool True),
            (''workerHostPort'', JStr ''192.168.100.10:7078''),
            (''workerId'', JStr ''worker-20241219-192.168.100.10-7078'')]) \<rparr> \<and>
     distinct (map generate_app_id (e # es)) =
       distinct (map (\<lambda>x. (now_stamp x, id_suffix x)) (e # es))"
proof -
  define app where "app = snd (create_mock_application (JStr name) ''RUNNING'' e)"
  define s1 where "s1 = s\<lparr>applications := AList.update (generate_app_id e) app (applications s)\<rparr>"
  from assms have ok: "mock_env_ok e" by simp
  have cm: "create_mock_application (JStr name) ''RUNNING'' e = (generate_app_id e, app)"
    by (simp add: app_def create_mock_application_def)
  have create: "create_submission (JDict [(''appResource'', JStr name)]) e s =
      Inr (\<lparr> status = 200,
             body = Json (JDict
               [(''action'', JStr ''CreateSubmissionResponse''),
                (''message'', JStr (''Driver successfully submitted as '' @ generate_app_id e)),
                (''serverSparkVersion'', JStr ''3.5.0''),
                (''submissionId'', JStr (generate_app_id e)),
                (''success'', JBool True)]) \<rparr>, s1)"
    by (simp add: create_submission_def body_or_empty_def get_appResource_def cm s1_def)
  have look: "map_of (applications s1) (generate_app_id e) = Some app"
    by (simp add: s1_def map_of_update_same)
  have fields: "app_state app = ''RUNNING''"
    "p_completed (app_stages app) = r_stages_completed e"
    "p_completed (app_tasks app) = r_tasks_completed e"
    by (simp_all add: app_def create_mock_application_def)
  have ranges: "0 \<le> r_stages_completed e" "r_stages_completed e \<le> 15"
    "50 \<le> r_tasks_completed e" "r_tasks_completed e \<le> 900"
    using ok by (simp_all add: mock_env_ok_def)
  have st: "get_submission_status (generate_app_id e) s1 =
       \<lparr> status = 200,
         body = Json (JDict
           [(''action'', JStr ''SubmissionStatusResponse''),
            (''driverState'', JStr ''RUNNING''),
            (''serverSparkVersion'', JStr ''3.5.0''),
            (''submissionId'', JStr (generate_app_id e)),
            (''success'', JBool True),
            (''workerHostPort'', JStr ''192.168.100.10:7078''),
            (''workerId'', JStr ''worker-20241219-192.168.100.10-7078'')]) \<rparr>"
    by (simp add: get_submission_status_def look fields)
  have ids: "distinct (map generate_app_id (e # es)) =
       distinct (map (\<lambda>x. (now_stamp x, id_suffix x)) (e # es))"
  proof (rule distinct_map_cong_iff)
    fix x y
    assume "x \<in> set (e # es)" "y \<in> set (e # es)"
    with assms have "mock_env_ok x" "mock_env_ok y"
      by (auto simp: list_all_iff)
    then show "(generate_app_id x = generate_app_id y) =
               ((now_stamp x, id_suffix x) = (now_stamp y, id_suffix y))"
      by (simp add: generate_app_id_eq_iff)
  qed
  show ?thesis
    apply (rule exI[of _ "fst (projr (create_submission (JDict [(''appResource'', JStr name)]) e s))"])
    apply (rule exI[of _ s1], rule exI[of _ app])
    using create look fields ranges st ids by simp
qed

theorem submit_running_drawn_progress_witness:
  "list_all mock_env_ok [env0, env0\<lparr>id_suffix := 4321\<rparr>] \<and>
   (\<exists>r s1 app.
      create_submission (JDict [(''appResource'', JStr ''X'')]) env0 empty_store = Inr (r, s1) \<and>
      status r = 200 \<and>
      map_of (applications s1) ''app-20241219101500-1234'' = Some app \<and>
      app_state app = ''RUNNING'' \<and>
      p_completed (app_stages app) = 3 \<and>
      p_completed (app_tasks app) = 120 \<and>
      distinct (map generate_app_id [env0, env0\<lparr>id_suffix := 4321\<rparr>]))"
proof -
  have h: "list_all mock_env_ok [env0, env0\<lparr>id_suffix := 4321\<rparr>]"
    by (simp add: mock_env_ok_def env0_def)
  have d: "r_stages_completed env0 = 3" "r_tasks_completed env0 = 120"
    "(now_stamp env0, id_suffix env0) \<noteq> (now_stamp env0, 4321)"
    by (simp_all add: env0_def)
  from submit_running_drawn_progress [OF h, of "''X''" empty_store]
  show ?thesis
    using h d by (simp add: id_env0) blast
qed

text \<open>
  The claim C2 as stated fails: two submissions in the same second that draw the same
  suffix get the same answer, hence the same id (the second replaces the first in the
  active set), and the job just submitted has 3 completed stages and 120 completed tasks.
\<close>

theorem submit_not_zeroed_not_unique:
  "mock_env_ok env0 \<and> mock_env_ok (env0\<lparr>r_cores := 16\<rparr>) \<and>
   body (fst (projr (create_submission (JDict [(''appResource'', JStr ''X'')]) env0 empty_store))) =
   body (fst (projr (create_submission (JDict [(''appResource'', JStr ''X'')]) (env0\<lparr>r_cores := 16\<rparr>)
        (snd (projr (create_submission (JDict [(''appResource'', JStr ''X'')]) env0 empty_store)))))) \<and>
   applications (snd (projr (create_submission (JDict [(''appResource'', JStr ''X'')]) env0 empty_store))) =
     [(''app-20241219101500-1234'', snd (create_mock_application (JStr ''X'') ''RUNNING'' env0))] \<and>
   p_completed (app_stages (snd (create_mock_application (JStr ''X'') ''RUNNING'' env0))) = 3 \<and>
   p_completed (app_tasks (snd (create_mock_application (JStr ''X'') ''RUNNING'' env0))) = 120"
proof -
  have id1: "generate_app_id (env0\<lparr>r_cores := 16\<rparr>) = ''app-20241219101500-1234''"
    using id_env0 by (simp add: generate_app_id_def)
  have ok: "mock_env_ok (env0\<lparr>r_cores := 16\<rparr>)"
    by (simp add: mock_env_ok_def env0_def)
  have prog: "p_completed (app_stages (snd (create_mock_application (JStr ''X'') ''RUNNING'' env0))) = 3"
     "p_completed (app_tasks (snd (create_mock_application (JStr ''X'') ''RUNNING'' env0))) = 120"
    by (simp_all add: create_mock_application_def env0_def)
  show ?thesis
    using env0_ok ok prog
    by (simp add: create_submission_def body_or_empty_def get_appResource_def
        empty_store_def case_prod_beta mock_fst id_env0 id1)
qed

subsection \<open>Completed against total\<close>

text \<open>The updater keeps \<open>completed \<le> total\<close> for stages and for tasks where it holds.\<close>

lemma advance_keeps_bound:
  assumes "p_completed (app_stages a) \<le> p_total (app_stages a)"
      and "p_completed (app_tasks a) \<le> p_total (app_tasks a)"
  shows "p_completed (app_stages (advance d a)) \<le> p_total (app_stages (advance d a)) \<and>
         p_completed (app_tasks (advance d a)) \<le> p_total (app_tasks (advance d a))"
  using assms by (simp add: advance_def Let_def)

lemma env_over_ok: "mock_env_ok env_over"
  by (simp add: mock_env_ok_def env_over_def env0_def)

text \<open>
  C1 at a failing input. With draws inside the ranges of \<open>create_mock_application\<close>
  (stages: total 5, completed 15; tasks: total 100, completed 900) a submission stores a
  job whose completed counts exceed its totals.
\<close>

theorem create_exceeds_total:
  "mock_env_ok env_over \<and>
   applications (snd (projr (create_submission JNull env_over empty_store))) =
     [(''app-20241219101500-1234'', snd (create_mock_application (JStr ''Submitted Job'') ''RUNNING'' env_over))] \<and>
   app_stages (snd (create_mock_application (JStr ''Submitted Job'') ''RUNNING'' env_over)) =
     \<lparr> p_total = 5, p_completed = 15, p_failed = 0 \<rparr> \<and>
   app_tasks (snd (create_mock_application (JStr ''Submitted Job'') ''RUNNING'' env_over)) =
     \<lparr> p_total = 100, p_completed = 900, p_failed = 3 \<rparr>"
proof -
  have "generate_app_id env_over = ''app-20241219101500-1234''"
    using id_env0 by (simp add: generate_app_id_def env_over_def)
  moreover have "app_stages (snd (create_mock_application n st env_over)) =
       \<lparr> p_total = 5, p_completed = 15, p_failed = 0 \<rparr>"
    "app_tasks (snd (create_mock_application n st env_over)) =
       \<lparr> p_total = 100, p_completed = 900, p_failed = 3 \<rparr>" for n st
    by (simp_all add: create_mock_application_def env_over_def env0_def)
  ultimately show ?thesis
    by (simp add: env_over_ok create_submission_def body_or_empty_def get_appResource_def
        empty_store_def case_prod_beta mock_fst)
qed

subsection \<open>The body of a submission\<close>

text \<open>
  C9, as the code has it, on the value \<open>request.get_json()\<close> returned. When that value
  is \<open>None\<close> (the body \<open>null\<close>) or another falsy value, or is an object, the handler
  answers 200 with \<open>success = true\<close> and the new id, and stores the job; the name is the
  value under \<open>appResource\<close>, or "Submitted Job" when the object has no such key or the
  value is falsy. Nothing is said of a request for which \<open>get_json()\<close> does not return.
\<close>

theorem create_submission_defaults:
  assumes "\<not> truthy request_json \<or> (\<exists>kvs. request_json = JDict kvs)"
  shows "create_submission request_json e s =
           Inr (\<lparr> status = 200,
                  body = Json (JDict
                    [(''action'', JStr ''CreateSubmissionResponse''),
                     (''message'', JStr (''Driver successfully submitted as '' @ generate_app_id e)),
                     (''serverSparkVersion'', JStr ''3.5.0''),
                     (''submissionId'', JStr (generate_app_id e)),
                     (''success'', JBool True)]) \<rparr>,
                s\<lparr>applications :=
                    AList.update (generate_app_id e)
                      (snd (create_mock_application
                         (case request_json of
                            JDict kvs \<Rightarrow> (case map_of kvs ''appResource'' of
                                            Some v \<Rightarrow> v
                                          | None \<Rightarrow> JStr ''Submitted Job'')
                          | _ \<Rightarrow> JStr ''Submitted Job'')
                         ''RUNNING'' e))
                      (applications s)\<rparr>)"
proof (cases "truthy request_json")
  case False
  then show ?thesis
    by (cases request_json)
       (simp_all add: create_submission_def body_or_empty_def get_appResource_def
          create_mock_application_def)
next
  case True
  with assms obtain kvs where "request_json = JDict kvs" by blast
  with True show ?thesis
    by (simp add: create_submission_def body_or_empty_def get_appResource_def
          create_mock_application_def split: option.splits)
qed

theorem create_submission_defaults_witness:
  "create_submission JNull env0 empty_store =
     Inr (\<lparr> status = 200,
            body = Json (JDict
              [(''action'', JStr ''CreateSubmissionResponse''),
               (''message'', JStr ''Driver successfully submitted as app-20241219101500-1234''),
               (''serverSparkVersion'', JStr ''3.5.0''),
               (''submissionId'', JStr ''app-20241219101500-1234''),
               (''success'', JBool True)]) \<rparr>,
          empty_store\<lparr>applications :=
            [(''app-20241219101500-1234'',
              snd (create_mock_application (JStr ''Submitted Job'') ''RUNNING'' env0))]\<rparr>)"
proof -
  have h: "\<not> truthy JNull \<or> (\<exists>kvs. JNull = JDict kvs)" by simp
  show ?thesis
    using h create_submission_defaults [OF h, of env0 empty_store]
    by (simp add: id_env0 empty_store_def)
qed

text \<open>
  The claim C9 as stated fails on a body that is valid JSON but not an object: the array
  \<open>[1]\<close> is truthy and has no \<open>get\<close>, so the handler raises.
\<close>

theorem create_submission_non_object_raises:
  "create_submission (JList [JInt 1]) env0 empty_store = Inl AttributeError"
  by (simp add: create_submission_def body_or_empty_def get_appResource_def)

subsection \<open>Jobs, stages and executors of an application\<close>

text \<open>
  C10. With the numbers of entries drawn as the source draws them (3..10 jobs, 5..15
  stages, 2..6 executors besides the driver), each of the three handlers answers 200,
  never 404, with a non-empty array, and the answer is the same for every application id:
  the id is not looked at.
\<close>

theorem sub_resources_ignore_id:
  assumes "3 \<le> nj" "nj \<le> 10" "5 \<le> ns" "ns \<le> 15" "2 \<le> nx" "nx \<le> 6"
  shows "status (get_application_jobs aid nj jds) = 200 \<and>
         (\<exists>js. body (get_application_jobs aid nj jds) = Jobs js \<and> length js = nat nj \<and> js \<noteq> []) \<and>
         get_application_jobs aid nj jds = get_application_jobs other nj jds \<and>
         status (get_application_stages aid ns sds) = 200 \<and>
         (\<exists>ss. body (get_application_stages aid ns sds) = Stages ss \<and> length ss = nat ns \<and> ss \<noteq> []) \<and>
         get_application_stages aid ns sds = get_application_stages other ns sds \<and>
         status (get_application_executors aid dd nx xds) = 200 \<and>
         (\<exists>xs. body (get_application_executors aid dd nx xds) = Executors xs \<and>
               length xs = Suc (nat nx) \<and> xs \<noteq> []) \<and>
         get_application_executors aid dd nx xds = get_application_executors other dd nx xds"
  using assms
  by (simp add: get_application_jobs_def get_application_stages_def get_application_executors_def)

theorem sub_resources_ignore_id_witness:
  "(3::int) \<le> 3 \<and> (3::int) \<le> 10 \<and> (5::int) \<le> 5 \<and> (5::int) \<le> 15 \<and> (2::int) \<le> 2 \<and> (2::int) \<le> 6 \<and>
   status (get_application_jobs ''no-such-app'' 3 (\<lambda>i. job_draws0)) = 200 \<and>
   (\<exists>js. body (get_application_jobs ''no-such-app'' 3 (\<lambda>i. job_draws0)) = Jobs js \<and> length js = 3) \<and>
   (\<exists>ss. body (get_application_stages ''no-such-app'' 5 (\<lambda>i. stage_draws0)) = Stages ss \<and> length ss = 5) \<and>
   (\<exists>xs. body (get_application_executors ''no-such-app'' executor_draws0 2 (\<lambda>i. executor_draws0)) = Executors xs \<and>
      length xs = 3) \<and>
   get_application_jobs ''no-such-app'' 3 (\<lambda>i. job_draws0) =
     get_application_jobs ''app-20241219101500-1234'' 3 (\<lambda>i. job_draws0)"
proof -
  have h: "(3::int) \<le> 3" "(3::int) \<le> 10" "(5::int) \<le> 5" "(5::int) \<le> 15" "(2::int) \<le> 2" "(2::int) \<le> 6"
    by simp_all
  from sub_resources_ignore_id [OF h, of "''no-such-app''" "\<lambda>i. job_draws0"
      "''app-20241219101500-1234''" "\<lambda>i. stage_draws0" executor_draws0 "\<lambda>i. executor_draws0"]
  have "status (get_application_jobs ''no-such-app'' 3 (\<lambda>i. job_draws0)) = 200"
    and "\<exists>js. body (get_application_jobs ''no-such-app'' 3 (\<lambda>i. job_draws0)) = Jobs js \<and> length js = 3"
    and "\<exists>ss. body (get_application_stages ''no-such-app'' 5 (\<lambda>i. stage_draws0)) = Stages ss \<and> length ss = 5"
    and "\<exists>xs. body (get_application_executors ''no-such-app'' executor_draws0 2 (\<lambda>i. executor_draws0)) = Executors xs \<and>
           length xs = 3"
    and "get_application_jobs ''no-such-app'' 3 (\<lambda>i. job_draws0) =
           get_application_jobs ''app-20241219101500-1234'' 3 (\<lambda>i. job_draws0)"
    by auto
  with h show ?thesis by blast
qed

section \<open>Properties of the GPU simulator\<close>

subsection \<open>Rounding\<close>

lemma fl_mono: "rounding_ok fl \<Longrightarrow> x \<le> y \<Longrightarrow> fl x \<le> fl y"
  by (simp add: rounding_ok_def)

lemma fl_idem: "rounding_ok fl \<Longrightarrow> fl (fl x) = fl x"
  by (simp add: rounding_ok_def)

lemma fl_int: "rounding_ok fl \<Longrightarrow> \<bar>n\<bar> \<le> 2 ^ 53 \<Longrightarrow> fl (of_int n) = of_int n"
  by (simp add: rounding_ok_def)

lemma fl_small:
  assumes "rounding_ok fl"
  shows "fl 0 = 0" "fl 1 = 1" "fl 75 = 75" "fl 80 = 80" "fl 100 = 100"
  using fl_int[OF assms, of 0] fl_int[OF assms, of 1] fl_int[OF assms, of 75]
    fl_int[OF assms, of 80] fl_int[OF assms, of 100]
  by simp_all

lemma fl_nonneg: "rounding_ok fl \<Longrightarrow> 0 \<le> x \<Longrightarrow> 0 \<le> fl x"
  using fl_mono[of fl 0 x] by (simp add: fl_small)

lemma fl_le_100: "rounding_ok fl \<Longrightarrow> x \<le> 100 \<Longrightarrow> fl x \<le> 100"
  using fl_mono[of fl x 100] by (simp add: fl_small)

lemma util_of_range: "10 \<le> util_of fl t d state \<and> util_of fl t d state \<le> 99"
  by (simp add: util_of_def)

lemma percent_of_util:
  assumes r: "rounding_ok fl" and u: "10 \<le> u" "u \<le> 99"
    and lo: "fl a \<le> x" "0 \<le> a" and hi: "x \<le> fl b" "b \<le> 1"
  shows "0 \<le> fl (u * x) \<and> fl (u * x) \<le> 100"
proof -
  have x0: "0 \<le> x"
    using fl_nonneg[OF r lo(2)] lo(1) by simp
  have "fl b \<le> 1"
    using fl_mono[OF r hi(2)] by (simp add: fl_small[OF r])
  with hi(1) have x1: "x \<le> 1" by simp
  have "0 \<le> u * x"
    using u x0 by simp
  moreover have "u * x \<le> 99 * 1"
    using u x0 x1 by (intro mult_mono) simp_all
  ultimately show ?thesis
    using fl_nonneg[OF r, of "u * x"] fl_le_100[OF r, of "u * x"] by simp
qed

subsection \<open>The values one turn of the loop computes\<close>

text \<open>
  The values computed for a device in one turn satisfy the bounds: used plus free is the
  total by integer arithmetic, the utilisation is clamped and the three products lie in
  0..100. They do not depend on the accumulator, so the statements of a pass are fixed
  by the clock reading, the draws and the devices as created.
\<close>

lemma compute_util: "v_util (compute fl t d state) = util_of fl t d state"
  by (simp add: compute_def Let_def)

lemma compute_power: "v_power (compute fl t d state) = power_of fl (util_of fl t d state) d state"
  by (simp add: compute_def Let_def)

lemma compute_reading_ok:
  assumes "rounding_ok fl" "gpu_draws_ok fl d"
  shows "reading_ok (total_memory state) (compute fl t d state)"
proof -
  note u = util_of_range[of fl t d state]
  from assms(2) have
    mc: "fl 0.3 \<le> g_mem_copy d" "g_mem_copy d \<le> fl 0.6" and
    te: "fl 0.7 \<le> g_tensor d" "g_tensor d \<le> fl 0.95" and
    dr: "fl 0.4 \<le> g_dram d" "g_dram d \<le> fl 0.7"
    by (simp_all add: gpu_draws_ok_def)
  have "0 \<le> fl (util_of fl t d state * g_mem_copy d) \<and> fl (util_of fl t d state * g_mem_copy d) \<le> 100"
    using u mc by (intro percent_of_util[OF assms(1), of _ "0.3" _ "0.6"]) simp_all
  moreover have "0 \<le> fl (util_of fl t d state * g_tensor d) \<and> fl (util_of fl t d state * g_tensor d) \<le> 100"
    using u te by (intro percent_of_util[OF assms(1), of _ "0.7" _ "0.95"]) simp_all
  moreover have "0 \<le> fl (util_of fl t d state * g_dram d) \<and> fl (util_of fl t d state * g_dram d) \<le> 100"
    using u dr by (intro percent_of_util[OF assms(1), of _ "0.4" _ "0.7"]) simp_all
  ultimately show ?thesis
    using u by (simp add: reading_ok_def compute_def Let_def)
qed

lemma power_of_lower:
  assumes r: "rounding_ok fl" and u: "0 \<le> u" and b: "80 \<le> base_power state" and j: "- 5 \<le> g_power d"
  shows "75 \<le> power_of fl u d state"
proof -
  have "0 \<le> fl (u / 100)"
    using u by (intro fl_nonneg[OF r]) simp
  then have "0 \<le> fl (fl (u / 100) * 80)"
    by (intro fl_nonneg[OF r]) simp
  with b have "80 \<le> base_power state + fl (fl (u / 100) * 80)"
    by simp
  from fl_mono[OF r this] have "80 \<le> fl (base_power state + fl (fl (u / 100) * 80))"
    by (simp add: fl_small[OF r])
  with j have "75 \<le> fl (base_power state + fl (fl (u / 100) * 80)) + g_power d"
    by simp
  from fl_mono[OF r this] show ?thesis
    by (simp add: power_of_def fl_small[OF r])
qed

lemma compute_ignores_energy: "compute fl t d (state\<lparr>energy := e\<rparr>) = compute fl t d state"
  by (simp add: compute_def util_of_def power_of_def)

lemma device_steps_ignore_energy:
  "device_steps fl t d h (state\<lparr>energy := e\<rparr>) = device_steps fl t d h state"
  by (simp add: device_steps_def compute_ignores_energy get_labels_def)

subsection \<open>The percentage gauges under any interleaving\<close>

text \<open>
  Every statement of a pass sets a percentage gauge to a value within its bounds. So
  whatever the order in which the statements of a background pass and of a scrape are
  executed, every registry that \<open>generate_latest()\<close> reads has all percentage gauges
  within bounds, provided the registry had before.
\<close>

lemma device_steps_percent_ok:
  assumes "rounding_ok fl" "gpu_draws_ok fl d"
  shows "list_all step_percent_ok (device_steps fl t d h state)"
  using compute_reading_ok[OF assms, of state t]
  by (simp add: device_steps_def Let_def reading_ok_def)

lemma pass_steps_percent_ok:
  assumes "rounding_ok fl" "\<forall>h. gpu_draws_ok fl (ds h)"
  shows "list_all step_percent_ok (pass_steps fl t ds states)"
  by (induction states) (auto simp: pass_steps_def device_steps_percent_ok[OF assms(1)] assms(2))

lemma exec_step_percent_ok:
  "step_percent_ok x \<Longrightarrow> registry_percent_ok (registry sim) \<Longrightarrow>
   registry_percent_ok (registry (exec_step fl x sim))"
  by (cases x) (auto simp: registry_percent_ok_def split: option.splits)

lemma responses_percent_ok:
  "list_all step_percent_ok xs \<Longrightarrow> registry_percent_ok (registry sim) \<Longrightarrow>
   list_all registry_percent_ok (responses fl xs sim) \<and>
   registry_percent_ok (registry (exec_steps fl xs sim))"
proof (induction xs arbitrary: sim)
  case Nil
  then show ?case by simp
next
  case (Cons x xs)
  from Cons.prems have ok: "step_percent_ok x" "list_all step_percent_ok xs" by simp_all
  note e = exec_step_percent_ok[OF ok(1) Cons.prems(2), of fl]
  from Cons.IH[OF ok(2) e] Cons.IH[OF ok(2) Cons.prems(2)] Cons.prems(2)
  show ?case by (cases x) simp_all
qed

lemma shuffles_list_all:
  "zs \<in> shuffles xs ys \<Longrightarrow> list_all P xs \<Longrightarrow> list_all P ys \<Longrightarrow> list_all P zs"
  by (auto simp: list_all_iff dest: set_shuffles)

lemma percentages_in_any_interleaving:
  assumes "rounding_ok fl" "\<forall>h. gpu_draws_ok fl (ds h)" "\<forall>h. gpu_draws_ok fl (ds' h)"
    and "zs \<in> shuffles (pass_steps fl t ds states) (metrics_steps fl t' ds' states')"
    and "registry_percent_ok (registry sim)"
  shows "list_all registry_percent_ok (responses fl zs sim)"
proof -
  have "list_all step_percent_ok (metrics_steps fl t' ds' states')"
    using pass_steps_percent_ok[OF assms(1,3), of t' states'] by (simp add: metrics_steps_def)
  from shuffles_list_all[OF assms(4) pass_steps_percent_ok[OF assms(1,2)] this]
  have "list_all step_percent_ok zs" .
  from responses_percent_ok[OF this assms(5)] show ?thesis by simp
qed

subsection \<open>The devices across passes\<close>

lemma device_steps_ok:
  assumes "rounding_ok fl" "gpu_draws_ok fl d" "device_ok fl state"
  shows "list_all step_ok (device_steps fl t d h state)"
proof -
  have "0 \<le> util_of fl t d state"
    using util_of_range[of fl t d state] by simp
  moreover from assms have "80 \<le> base_power state" "- 5 \<le> g_power d"
    by (simp_all add: device_ok_def gpu_draws_ok_def)
  ultimately have "75 \<le> v_power (compute fl t d state)"
    unfolding compute_power by (intro power_of_lower[OF assms(1)])
  then have "0 \<le> fl (v_power (compute fl t d state) * 5)"
    by (intro fl_nonneg[OF assms(1)]) simp
  then have "0 \<le> fl (fl (v_power (compute fl t d state) * 5) * 1000)"
    by (intro fl_nonneg[OF assms(1)]) simp
  then show ?thesis
    by (simp add: device_steps_def Let_def)
qed

lemma pass_steps_ok:
  assumes "rounding_ok fl" "\<forall>h. gpu_draws_ok fl (ds h)"
    and "list_all (\<lambda>(h, state). device_ok fl state) states"
  shows "list_all step_ok (pass_steps fl t ds states)"
  using assms(3)
  by (induction states) (auto simp: pass_steps_def device_steps_ok[OF assms(1)] assms(2))

lemma energy_rel_refl:
  "list_all2 (\<lambda>a b. fst b = fst a \<and> energy (snd a) \<le> energy (snd b)) xs xs"
  by (simp add: list_all2_same)

lemma energy_rel_trans:
  assumes "list_all2 (\<lambda>a b. fst b = fst a \<and> energy (snd a) \<le> energy (snd b)) xs ys"
    and "list_all2 (\<lambda>a b. fst b = fst a \<and> energy (snd a) \<le> energy (snd b)) ys zs"
  shows "list_all2 (\<lambda>a b. fst b = fst a \<and> energy (snd a) \<le> energy (snd b)) xs (zs :: (string \<times> GPUState) list)"
  using assms by (rule list_all2_trans[rotated]) auto

lemma exec_step_energy:
  assumes r: "rounding_ok fl" and s: "step_ok x"
    and ok: "list_all (\<lambda>(h, state). device_ok fl state) (gpu_states sim)"
  shows "list_all2 (\<lambda>a b. fst b = fst a \<and> energy (snd a) \<le> energy (snd b))
           (gpu_states sim) (gpu_states (exec_step fl x sim)) \<and>
         list_all (\<lambda>(h, state). device_ok fl state) (gpu_states (exec_step fl x sim))"
proof (cases x)
  case (AddEnergy h inc)
  have up: "energy state \<le> fl (energy state + inc) \<and> device_ok fl (state\<lparr>energy := fl (energy state + inc)\<rparr>)"
    if "device_ok fl state" for state
  proof -
    from s AddEnergy have "energy state \<le> energy state + inc" by simp
    from fl_mono[OF r this] that show ?thesis
      by (simp add: device_ok_def fl_idem[OF r])
  qed
  have gs: "gpu_states (exec_step fl x sim) =
      map (\<lambda>(h', state). if h' = h then (h', state\<lparr>energy := fl (energy state + inc)\<rparr>)
                           else (h', state)) (gpu_states sim)"
    by (simp add: AddEnergy)
  have "list_all2 (\<lambda>a b. fst b = fst a \<and> energy (snd a) \<le> energy (snd b))
           (gpu_states sim) (gpu_states (exec_step fl x sim))"
    unfolding gs list_all2_map2 list_all2_same
    using ok up by (auto simp: list_all_iff)
  moreover have "list_all (\<lambda>(h, state). device_ok fl state) (gpu_states (exec_step fl x sim))"
    unfolding gs list_all_iff
    using ok up by (auto simp: list_all_iff split: if_splits)
  ultimately show ?thesis by simp
next
  case (SetEnergyGauge h l)
  then show ?thesis
    using ok by (simp add: energy_rel_refl split: option.splits)
qed (use ok in \<open>simp_all add: energy_rel_refl\<close>)

lemma exec_steps_energy:
  assumes r: "rounding_ok fl"
  shows "list_all step_ok xs \<Longrightarrow>
         list_all (\<lambda>(h, state). device_ok fl state) (gpu_states sim) \<Longrightarrow>
         list_all2 (\<lambda>a b. fst b = fst a \<and> energy (snd a) \<le> energy (snd b))
           (gpu_states sim) (gpu_states (exec_steps fl xs sim)) \<and>
         list_all (\<lambda>(h, state). device_ok fl state) (gpu_states (exec_steps fl xs sim))"
proof (induction xs arbitrary: sim)
  case Nil
  then show ?case by (simp add: energy_rel_refl)
next
  case (Cons x xs)
  from Cons.prems have ok: "step_ok x" "list_all step_ok xs" by simp_all
  note e = exec_step_energy[OF r ok(1) Cons.prems(2)]
  from Cons.IH[OF ok(2) conjunct2[OF e]] conjunct1[OF e]
  show ?case by (auto intro: energy_rel_trans)
qed

lemma exec_steps_append: "exec_steps fl (xs @ ys) sim = exec_steps fl ys (exec_steps fl xs sim)"
  by (induction xs arbitrary: sim) simp_all

lemma gpu_exec_steps:
  "gpu_exec fl (LoopPass t ds) sim = update_metrics fl t ds sim"
  "gpu_exec fl (Scrape t ds) sim = update_metrics fl t ds sim"
  by (simp_all add: update_metrics_def metrics_steps_def exec_steps_append)

lemma gpu_exec_energy:
  assumes "rounding_ok fl" "gpu_op_ok fl x"
    and "list_all (\<lambda>(h, state). device_ok fl state) (gpu_states sim)"
  shows "list_all2 (\<lambda>a b. fst b = fst a \<and> energy (snd a) \<le> energy (snd b))
           (gpu_states sim) (gpu_states (gpu_exec fl x sim)) \<and>
         list_all (\<lambda>(h, state). device_ok fl state) (gpu_states (gpu_exec fl x sim))"
proof (cases x)
  case (LoopPass t ds)
  with assms(2) have "\<forall>h. gpu_draws_ok fl (ds h)" by simp
  from exec_steps_energy[OF assms(1) pass_steps_ok[OF assms(1) this assms(3)] assms(3)]
  show ?thesis
    unfolding LoopPass gpu_exec_steps update_metrics_def .
next
  case (Scrape t ds)
  with assms(2) have "\<forall>h. gpu_draws_ok fl (ds h)" by simp
  from exec_steps_energy[OF assms(1) pass_steps_ok[OF assms(1) this assms(3)] assms(3)]
  show ?thesis
    unfolding Scrape gpu_exec_steps update_metrics_def .
next
  case HealthCheck
  then show ?thesis
    using assms(3) by (simp add: energy_rel_refl)
qed

lemma gpu_run_append: "gpu_run fl (xs @ ys) sim = gpu_run fl ys (gpu_run fl xs sim)"
  by (induction xs arbitrary: sim) simp_all

lemma gpu_run_energy:
  assumes "rounding_ok fl"
  shows "list_all (gpu_op_ok fl) xs \<Longrightarrow>
         list_all (\<lambda>(h, state). device_ok fl state) (gpu_states sim) \<Longrightarrow>
         list_all2 (\<lambda>a b. fst b = fst a \<and> energy (snd a) \<le> energy (snd b))
           (gpu_states sim) (gpu_states (gpu_run fl xs sim)) \<and>
         list_all (\<lambda>(h, state). device_ok fl state) (gpu_states (gpu_run fl xs sim))"
proof (induction xs arbitrary: sim)
  case Nil
  then show ?case by (simp add: energy_rel_refl)
next
  case (Cons x xs)
  from Cons.prems have ok: "gpu_op_ok fl x" "list_all (gpu_op_ok fl) xs" by simp_all
  note e = gpu_exec_energy[OF assms ok(1) Cons.prems(2)]
  from Cons.IH[OF ok(2) conjunct2[OF e]] conjunct1[OF e]
  show ?case by (auto intro: energy_rel_trans)
qed

lemma startup_devices:
  assumes "rounding_ok fl" "\<forall>h. init_draws_ok (inits h)"
  shows "list_all (\<lambda>(h, state). device_ok fl state) (gpu_states (gpu_startup inits))"
  using assms
  by (simp add: gpu_startup_def NODES_def GPUState_init_def device_ok_def init_draws_ok_def fl_small)

lemma startup_names: "map fst (gpu_states (gpu_startup inits)) = [''dgx-spark-01'', ''dgx-spark-02'']"
  by (simp add: gpu_startup_def NODES_def)

lemma rounding_id: "rounding_ok (\<lambda>x. x)"
  by (simp add: rounding_ok_def)

lemma draws0_ok: "gpu_draws_ok (\<lambda>x. x) gpu_draws0"
  by (simp add: gpu_draws_ok_def gpu_draws0_def)

lemma exec_step_states:
  "gpu_states (exec_step fl x sim) =
     (case x of
        AddEnergy h inc \<Rightarrow>
          map (\<lambda>(h', state). if h' = h then (h', state\<lparr>energy := fl (energy state + inc)\<rparr>)
                               else (h', state)) (gpu_states sim)
      | _ \<Rightarrow> gpu_states sim)"
  by (cases x) (simp_all split: option.splits)

lemma device_steps_states:
  "gpu_states (exec_steps fl (device_steps fl t d h state) sim) =
     map (\<lambda>(h', s). if h' = h
            then (h', s\<lparr>energy := fl (energy s + fl (fl (v_power (compute fl t d state) * 5) * 1000))\<rparr>)
            else (h', s)) (gpu_states sim)"
  by (simp add: device_steps_def Let_def exec_step_states del: exec_step.simps)

lemma pass_steps_states:
  "distinct (map fst sts) \<Longrightarrow>
   gpu_states (exec_steps fl (pass_steps fl t ds sts) sim) =
     map (\<lambda>(h', s').
            case map_of sts h' of
              Some s \<Rightarrow> (h', s'\<lparr>energy := fl (energy s' + fl (fl (v_power (compute fl t (ds h') s) * 5) * 1000))\<rparr>)
            | None \<Rightarrow> (h', s')) (gpu_states sim)"
proof (induction sts arbitrary: sim)
  case Nil
  then show ?case by (simp add: pass_steps_def)
next
  case (Cons a sts)
  obtain h state where a: "a = (h, state)" by (cases a)
  from Cons.prems a have d: "distinct (map fst sts)" and n: "map_of sts h = None"
    by (simp_all add: map_of_eq_None_iff)
  have p: "pass_steps fl t ds (a # sts) = device_steps fl t (ds h) h state @ pass_steps fl t ds sts"
    by (simp add: pass_steps_def a)
  show ?case
    unfolding p exec_steps_append Cons.IH[OF d] device_steps_states
    by (auto simp: a n)
qed

lemma update_metrics_states:
  assumes "distinct (map fst (gpu_states sim))"
  shows "gpu_states (update_metrics fl t ds sim) =
     map (\<lambda>(h, state).
            (h, state\<lparr>energy := fl (energy state + fl (fl (v_power (compute fl t (ds h) state) * 5) * 1000))\<rparr>))
         (gpu_states sim)"
  unfolding update_metrics_def pass_steps_states[OF assms]
  using assms by (intro map_cong) auto

subsection \<open>A pass on concrete values\<close>

lemma str_examples:
  "str_int 0 = ''0''" "str_int 4242 = ''4242''" "fmt_04d 0 = ''0000''"
proof -
  show a: "str_int 0 = ''0''" and "str_int 4242 = ''4242''"
    by (simp_all add: str_int_def str_nat.simps digit_char_def)
  have "str_nat 0 = ''0''"
    by (simp add: str_nat.simps digit_char_def)
  then show "fmt_04d 0 = ''0000''"
    by (simp add: fmt_04d_def numeral_3_eq_3)
qed

lemma uuid_example:
  "get_labels (GPUState_init ''dgx-spark-01'' 0 init_draws0) =
     \<lparr> l_gpu = ''0'', l_UUID = ''GPU-dgx-spark-01-0000-4242'', l_device = ''nvidia0'',
       l_modelName = ''NVIDIA GB10 Blackwell'', l_Hostname = ''dgx-spark-01'' \<rparr>"
  by (simp add: get_labels_def GPUState_init_def init_draws0_def str_examples)

lemma labels1_value:
  "labels1 = \<lparr> l_gpu = ''0'', l_UUID = ''GPU-dgx-spark-01-0000-4242'', l_device = ''nvidia0'',
       l_modelName = ''NVIDIA GB10 Blackwell'', l_Hostname = ''dgx-spark-01'' \<rparr>"
  by (simp add: labels1_def uuid_example)

lemma compute_example:
  "compute (\<lambda>x. x) 0 gpu_draws0 (GPUState_init ''dgx-spark-01'' 0 init_draws0) =
     \<lparr> v_util = 66, v_mem_util = 33, v_mem_used = 82575, v_mem_free = 48497,
       v_temp = 67.5, v_memory_temp = 61.5, v_power = 150.8,
       v_sm_clock = 2038, v_mem_clock = 1854, v_pcie_tx = 9900500, v_pcie_rx = 7919500,
       v_nvlink_bw = 135, v_tensor_util = 52.8, v_dram_active = 33 \<rparr>"
  by (simp add: compute_def util_of_def workload_factor_def power_of_def py_int_def
      GPUState_init_def gpu_draws0_def init_draws0_def Let_def)

lemma sim0_states:
  "gpu_states sim0 =
     [(''dgx-spark-01'', GPUState_init ''dgx-spark-01'' 0 init_draws0),
      (''dgx-spark-02'', GPUState_init ''dgx-spark-02'' 0 init_draws0)]"
  by (simp add: sim0_def gpu_startup_def NODES_def)

lemma power_example:
  "v_power (compute (\<lambda>x. x) 0 gpu_draws0 (GPUState_init h 0 init_draws0\<lparr>energy := e\<rparr>)) = 150.8"
  "v_power (compute (\<lambda>x. x) 0 gpu_draws0 (GPUState_init h 0 init_draws0)) = 150.8"
  by (simp_all add: compute_def util_of_def workload_factor_def power_of_def
      GPUState_init_def gpu_draws0_def init_draws0_def Let_def)

lemma energy_example:
  "map (\<lambda>(h, state). (h, energy state))
       (gpu_states (gpu_run (\<lambda>x. x) [Scrape 0 (\<lambda>h. gpu_draws0)] sim0)) =
     [(''dgx-spark-01'', 754000), (''dgx-spark-02'', 754000)]"
  "map (\<lambda>(h, state). (h, energy state))
       (gpu_states (gpu_run (\<lambda>x. x) [Scrape 0 (\<lambda>h. gpu_draws0), LoopPass 0 (\<lambda>h. gpu_draws0)] sim0)) =
     [(''dgx-spark-01'', 1508000), (''dgx-spark-02'', 1508000)]"
proof -
  have d0: "distinct (map fst (gpu_states sim0))"
    by (simp add: sim0_states)
  have s1: "gpu_states (update_metrics (\<lambda>x. x) 0 (\<lambda>h. gpu_draws0) sim0) =
     [(''dgx-spark-01'', GPUState_init ''dgx-spark-01'' 0 init_draws0\<lparr>energy := 754000\<rparr>),
      (''dgx-spark-02'', GPUState_init ''dgx-spark-02'' 0 init_draws0\<lparr>energy := 754000\<rparr>)]"
    unfolding update_metrics_states[OF d0] sim0_states
    by (simp add: power_example) (simp add: GPUState_init_def)
  have d1: "distinct (map fst (gpu_states (update_metrics (\<lambda>x. x) 0 (\<lambda>h. gpu_draws0) sim0)))"
    by (simp add: s1)
  have s2: "gpu_states (update_metrics (\<lambda>x. x) 0 (\<lambda>h. gpu_draws0)
               (update_metrics (\<lambda>x. x) 0 (\<lambda>h. gpu_draws0) sim0)) =
     [(''dgx-spark-01'', GPUState_init ''dgx-spark-01'' 0 init_draws0\<lparr>energy := 1508000\<rparr>),
      (''dgx-spark-02'', GPUState_init ''dgx-spark-02'' 0 init_draws0\<lparr>energy := 1508000\<rparr>)]"
    unfolding update_metrics_states[OF d1] s1
    by (simp add: power_example)
  show "map (\<lambda>(h, state). (h, energy state))
       (gpu_states (gpu_run (\<lambda>x. x) [Scrape 0 (\<lambda>h. gpu_draws0)] sim0)) =
     [(''dgx-spark-01'', 754000), (''dgx-spark-02'', 754000)]"
    by (simp add: gpu_exec_steps s1 del: gpu_exec.simps)
  show "map (\<lambda>(h, state). (h, energy state))
       (gpu_states (gpu_run (\<lambda>x. x) [Scrape 0 (\<lambda>h. gpu_draws0), LoopPass 0 (\<lambda>h. gpu_draws0)] sim0)) =
     [(''dgx-spark-01'', 1508000), (''dgx-spark-02'', 1508000)]"
    by (simp add: gpu_exec_steps s2 del: gpu_exec.simps)
qed

subsection \<open>A scrape during a pass of the background loop\<close>

lemma prepend_left: "zs \<in> shuffles xs ys \<Longrightarrow> ps @ zs \<in> shuffles (ps @ xs) ys"
  by (induction ps) (simp_all add: Cons_in_shuffles_leftI)

lemma prepend_right: "zs \<in> shuffles xs ys \<Longrightarrow> ps @ zs \<in> shuffles xs (ps @ ys)"
  by (induction ps) (simp_all add: Cons_in_shuffles_rightI)

lemma interleave_in_shuffles:
  assumes "3 < length xs"
  shows "take 3 xs @ ys @ [xs ! 3] @ [z] @ drop 4 xs \<in> shuffles xs (ys @ [z])"
proof -
  have "drop 4 xs \<in> shuffles (drop 4 xs) []"
    by simp
  from prepend_right[OF this, of "[z]"]
  have "[z] @ drop 4 xs \<in> shuffles (drop 4 xs) [z]"
    by simp
  from prepend_left[OF this, of "[xs ! 3]"]
  have "[xs ! 3] @ [z] @ drop 4 xs \<in> shuffles ([xs ! 3] @ drop 4 xs) [z]" .
  from prepend_right[OF this, of ys]
  have "ys @ [xs ! 3] @ [z] @ drop 4 xs \<in> shuffles ([xs ! 3] @ drop 4 xs) (ys @ [z])" .
  from prepend_left[OF this, of "take 3 xs"]
  have "take 3 xs @ ys @ [xs ! 3] @ [z] @ drop 4 xs \<in> shuffles (take 3 xs @ [xs ! 3] @ drop 4 xs) (ys @ [z])" .
  moreover have "take 3 xs @ [xs ! 3] @ drop 4 xs = xs"
    using id_take_nth_drop[OF assms] by simp
  ultimately show ?thesis by simp
qed

lemma length_device_steps: "length (device_steps fl t d h state) = 20"
  by (simp add: device_steps_def Let_def)

lemma length_loop_steps: "length loop_steps = 40"
  by (simp add: loop_steps_def pass_steps_def sim0_def gpu_startup_def NODES_def length_device_steps)

lemma mixed_is_interleaving: "mixed_steps \<in> shuffles loop_steps scrape_steps"
proof -
  have "3 < length loop_steps"
    by (simp add: length_loop_steps)
  from interleave_in_shuffles[OF this, of "butlast scrape_steps" GenerateLatest]
  show ?thesis
    by (simp add: mixed_steps_def scrape_steps_def metrics_steps_def)
qed

lemma no_read_in_pass: "GenerateLatest \<notin> set (pass_steps fl t ds sts)"
  by (auto simp: pass_steps_def device_steps_def Let_def)

lemma responses_append:
  "GenerateLatest \<notin> set xs \<Longrightarrow> responses fl (xs @ ys) sim = responses fl ys (exec_steps fl xs sim)"
proof (induction xs arbitrary: sim)
  case Nil
  then show ?case by simp
next
  case (Cons x xs)
  then show ?case by (cases x) simp_all
qed

lemma responses_no_read: "GenerateLatest \<notin> set xs \<Longrightarrow> responses fl xs sim = []"
  using responses_append[of xs fl "[]" sim] by simp

lemma registry_exec_step:
  "g \<noteq> DCGM_FI_DEV_TOTAL_ENERGY_CONSUMPTION \<Longrightarrow>
   registry (exec_step fl x sim) (g, l) =
     (case x of
        SetGauge g' l' v \<Rightarrow> if g' = g \<and> l' = l then Some v else registry sim (g, l)
      | _ \<Rightarrow> registry sim (g, l))"
  by (cases x) (auto split: option.splits)

lemma registry_exec_steps:
  "g \<noteq> DCGM_FI_DEV_TOTAL_ENERGY_CONSUMPTION \<Longrightarrow>
   registry (exec_steps fl xs sim) (g, l) =
     fold (\<lambda>x acc. case x of SetGauge g' l' v \<Rightarrow> if g' = g \<and> l' = l then Some v else acc | _ \<Rightarrow> acc)
          xs (registry sim (g, l))"
proof (induction xs arbitrary: sim)
  case Nil
  then show ?case by simp
next
  case (Cons x xs)
  show ?case
    unfolding exec_steps.simps Cons.IH[OF Cons.prems] registry_exec_step[OF Cons.prems]
    by (cases x) simp_all
qed

lemma labels_differ:
  "(get_labels (GPUState_init ''dgx-spark-02'' 0 init_draws0) =
    get_labels (GPUState_init ''dgx-spark-01'' 0 init_draws0)) = False"
  by (simp add: get_labels_def GPUState_init_def)

lemma framebuffer_examples:
  "v_mem_used (compute (\<lambda>x. x) 0 (gpu_draws0\<lparr>g_noise := - 5\<rparr>) (GPUState_init h 0 init_draws0)) = 78643"
  "v_mem_free (compute (\<lambda>x. x) 0 (gpu_draws0\<lparr>g_noise := - 5\<rparr>) (GPUState_init h 0 init_draws0)) = 52429"
  "v_mem_used (compute (\<lambda>x. x) 0 (gpu_draws0\<lparr>g_noise := 5\<rparr>) (GPUState_init h 0 init_draws0)) = 85196"
  "v_mem_free (compute (\<lambda>x. x) 0 (gpu_draws0\<lparr>g_noise := 5\<rparr>) (GPUState_init h 0 init_draws0)) = 45876"
  "total_memory (GPUState_init h 0 init_draws0) = 131072"
  by (simp_all add: compute_def util_of_def workload_factor_def power_of_def py_int_def
      GPUState_init_def gpu_draws0_def init_draws0_def Let_def)

lemma draws_mixed_ok:
  "gpu_draws_ok (\<lambda>x. x) (gpu_draws0\<lparr>g_noise := - 5\<rparr>)"
  "gpu_draws_ok (\<lambda>x. x) (gpu_draws0\<lparr>g_noise := 5\<rparr>)"
  by (simp_all add: gpu_draws_ok_def gpu_draws0_def)

lemma loop_steps_value:
  "loop_steps =
     device_steps (\<lambda>x. x) 0 (gpu_draws0\<lparr>g_noise := - 5\<rparr>) ''dgx-spark-01''
       (GPUState_init ''dgx-spark-01'' 0 init_draws0) @
     device_steps (\<lambda>x. x) 0 (gpu_draws0\<lparr>g_noise := - 5\<rparr>) ''dgx-spark-02''
       (GPUState_init ''dgx-spark-02'' 0 init_draws0)"
  by (simp add: loop_steps_def pass_steps_def sim0_states)

lemma scrape_steps_value:
  "butlast scrape_steps =
     device_steps (\<lambda>x. x) 0 (gpu_draws0\<lparr>g_noise := 5\<rparr>) ''dgx-spark-01''
       (GPUState_init ''dgx-spark-01'' 0 init_draws0) @
     device_steps (\<lambda>x. x) 0 (gpu_draws0\<lparr>g_noise := 5\<rparr>) ''dgx-spark-02''
       (GPUState_init ''dgx-spark-02'' 0 init_draws0)"
  by (simp add: scrape_steps_def metrics_steps_def pass_steps_def sim0_states butlast_append)

lemma loop_prefix:
  "take 3 loop_steps =
     [SetGauge DCGM_FI_DEV_GPU_UTIL labels1
        (v_util (compute (\<lambda>x. x) 0 (gpu_draws0\<lparr>g_noise := - 5\<rparr>) (GPUState_init ''dgx-spark-01'' 0 init_draws0))),
      SetGauge DCGM_FI_DEV_MEM_COPY_UTIL labels1
        (v_mem_util (compute (\<lambda>x. x) 0 (gpu_draws0\<lparr>g_noise := - 5\<rparr>) (GPUState_init ''dgx-spark-01'' 0 init_draws0))),
      SetGauge DCGM_FI_DEV_FB_USED labels1 78643]"
  "loop_steps ! 3 = SetGauge DCGM_FI_DEV_FB_FREE labels1 52429"
  by (simp_all add: loop_steps_value device_steps_def Let_def labels1_def framebuffer_examples)

lemma mixed_responses:
  "map (\<lambda>r. (r (DCGM_FI_DEV_FB_USED, labels1), r (DCGM_FI_DEV_FB_FREE, labels1),
             r (DCGM_FI_DEV_FB_TOTAL, labels1)))
       (responses (\<lambda>x. x) mixed_steps sim0) =
     [(Some 85196, Some 52429, Some 131072)]"
proof -
  let ?pre = "take 3 loop_steps @ butlast scrape_steps @ [loop_steps ! 3]"
  have m: "mixed_steps = ?pre @ GenerateLatest # drop 4 loop_steps"
    by (simp add: mixed_steps_def)
  have l: "GenerateLatest \<notin> set loop_steps"
    by (simp add: loop_steps_def no_read_in_pass)
  have nd: "GenerateLatest \<notin> set (drop 4 loop_steps)"
    using l by (auto dest: in_set_dropD)
  have "GenerateLatest \<notin> set (take 3 loop_steps)"
    using l by (auto dest: in_set_takeD)
  moreover have "GenerateLatest \<notin> set (butlast scrape_steps)"
    by (simp add: scrape_steps_def metrics_steps_def no_read_in_pass)
  moreover have "loop_steps ! 3 \<noteq> GenerateLatest"
    by (simp add: loop_prefix)
  ultimately have np: "GenerateLatest \<notin> set ?pre"
    by simp
  have r: "responses (\<lambda>x. x) mixed_steps sim0 = [registry (exec_steps (\<lambda>x. x) ?pre sim0)]"
    unfolding m responses_append[OF np]
    by (simp add: responses_no_read[OF nd])
  have e: "registry sim0 k = None" for k
    by (simp add: sim0_def gpu_startup_def)
  have "registry (exec_steps (\<lambda>x. x) ?pre sim0) (DCGM_FI_DEV_FB_USED, labels1) = Some 85196"
    unfolding registry_exec_steps[of DCGM_FI_DEV_FB_USED, simplified] e loop_prefix scrape_steps_value
    by (simp add: device_steps_def Let_def labels1_def labels_differ framebuffer_examples)
  moreover have "registry (exec_steps (\<lambda>x. x) ?pre sim0) (DCGM_FI_DEV_FB_FREE, labels1) = Some 52429"
    unfolding registry_exec_steps[of DCGM_FI_DEV_FB_FREE, simplified] e loop_prefix scrape_steps_value
    by (simp add: device_steps_def Let_def labels1_def labels_differ framebuffer_examples)
  moreover have "registry (exec_steps (\<lambda>x. x) ?pre sim0) (DCGM_FI_DEV_FB_TOTAL, labels1) = Some 131072"
    unfolding registry_exec_steps[of DCGM_FI_DEV_FB_TOTAL, simplified] e loop_prefix scrape_steps_value
    by (simp add: device_steps_def Let_def labels1_def labels_differ framebuffer_examples)
  ultimately show ?thesis
    unfolding r by simp
qed

text \<open>
  C3 at a failing execution. The background loop and a scrape call \<open>update_metrics\<close> at
  the same clock reading, with draws in the ranges of the source (noise \<open>-5\<close> and \<open>5\<close>).
  In the execution \<open>mixed_steps\<close> of the two threads the scrape sets \<open>FB_USED\<close> of the
  first device to 85196 (utilisation 70), the loop then sets \<open>FB_FREE\<close> to 52429
  (utilisation 60), and \<open>generate_latest()\<close> of the scrape reads the registry with
  these two values beside \<open>FB_TOTAL\<close> 131072: used plus free is 137625.
\<close>

theorem scrape_reads_two_passes:
  "gpu_draws_ok (\<lambda>x. x) (gpu_draws0\<lparr>g_noise := - 5\<rparr>) \<and>
   gpu_draws_ok (\<lambda>x. x) (gpu_draws0\<lparr>g_noise := 5\<rparr>) \<and>
   mixed_steps \<in> shuffles loop_steps scrape_steps \<and>
   map (\<lambda>r. (r (DCGM_FI_DEV_FB_USED, labels1), r (DCGM_FI_DEV_FB_FREE, labels1),
             r (DCGM_FI_DEV_FB_TOTAL, labels1)))
       (responses (\<lambda>x. x) mixed_steps sim0) =
     [(Some 85196, Some 52429, Some 131072)]"
  using draws_mixed_ok mixed_is_interleaving mixed_responses by simp

subsection \<open>The energy accumulator\<close>

text \<open>
  C4, as the code has it. For devices created by \<open>GPUState.__init__\<close> and draws in the
  ranges of the source, take any run of background passes, scrapes and health checks, no
  two overlapping, and any continuation of it: the energy of every device after the run
  is at most its energy after the continuation. A pass of the loop, and equally the pass
  a scrape triggers, sets the accumulator of every device to its old value plus
  \<open>power * 5 * 1000\<close>, where \<open>power\<close> is the value the same turn sets the power gauge
  to and 5 is a constant of the source: the time that has passed since the last pass
  does not enter. Nothing else writes the accumulator.
\<close>

theorem energy_never_decreases:
  assumes "rounding_ok fl" and "\<forall>h. init_draws_ok (inits h)"
    and "list_all (gpu_op_ok fl) ops" and "list_all (gpu_op_ok fl) later"
  shows "map fst (gpu_states (gpu_run fl ops (gpu_startup inits))) = [''dgx-spark-01'', ''dgx-spark-02''] \<and>
         list_all2 (\<lambda>a b. fst b = fst a \<and> energy (snd a) \<le> energy (snd b))
           (gpu_states (gpu_run fl ops (gpu_startup inits)))
           (gpu_states (gpu_run fl (ops @ later) (gpu_startup inits))) \<and>
         gpu_states (gpu_exec fl (LoopPass t ds) (gpu_run fl ops (gpu_startup inits))) =
           map (\<lambda>(h, state).
                  (h, state\<lparr>energy :=
                        fl (energy state + fl (fl (v_power (compute fl t (ds h) state) * 5) * 1000))\<rparr>))
               (gpu_states (gpu_run fl ops (gpu_startup inits))) \<and>
         gpu_states (gpu_exec fl (Scrape t ds) (gpu_run fl ops (gpu_startup inits))) =
           gpu_states (gpu_exec fl (LoopPass t ds) (gpu_run fl ops (gpu_startup inits))) \<and>
         SetGauge DCGM_FI_DEV_POWER_USAGE (get_labels state) (v_power (compute fl t d state))
           \<in> set (device_steps fl t d h state)"
proof -
  note r = assms(1)
  note a = gpu_run_energy[OF r assms(3) startup_devices[OF r assms(2)]]
  note b = gpu_run_energy[OF r assms(4) conjunct2[OF a]]
  have "map fst (gpu_states (gpu_run fl ops (gpu_startup inits))) = map fst (gpu_states (gpu_startup inits))"
    using conjunct1[OF a]
    by (induction rule: list_all2_induct) simp_all
  then have n: "map fst (gpu_states (gpu_run fl ops (gpu_startup inits))) = [''dgx-spark-01'', ''dgx-spark-02'']"
    by (simp add: startup_names)
  then have "distinct (map fst (gpu_states (gpu_run fl ops (gpu_startup inits))))"
    by simp
  note u = update_metrics_states[OF this, of fl t ds]
  have m: "SetGauge DCGM_FI_DEV_POWER_USAGE (get_labels state) (v_power (compute fl t d state))
           \<in> set (device_steps fl t d h state)"
    by (simp add: device_steps_def Let_def)
  from n conjunct1[OF b] u m show ?thesis
    by (simp add: gpu_run_append gpu_exec_steps del: gpu_exec.simps)
qed

theorem energy_never_decreases_witness:
  "rounding_ok (\<lambda>x. x) \<and> (\<forall>h. init_draws_ok ((\<lambda>h. init_draws0) h)) \<and>
   list_all (gpu_op_ok (\<lambda>x. x)) [Scrape 0 (\<lambda>h. gpu_draws0)] \<and>
   list_all (gpu_op_ok (\<lambda>x. x)) [LoopPass 5 (\<lambda>h. gpu_draws0), HealthCheck] \<and>
   list_all2 (\<lambda>a b. fst b = fst a \<and> energy (snd a) \<le> energy (snd b))
     (gpu_states (gpu_run (\<lambda>x. x) [Scrape 0 (\<lambda>h. gpu_draws0)] (gpu_startup (\<lambda>h. init_draws0))))
     (gpu_states (gpu_run (\<lambda>x. x) ([Scrape 0 (\<lambda>h. gpu_draws0)] @ [LoopPass 5 (\<lambda>h. gpu_draws0), HealthCheck])
        (gpu_startup (\<lambda>h. init_draws0))))"
proof -
  have i: "\<forall>h. init_draws_ok ((\<lambda>h. init_draws0) h)"
    by (simp add: init_draws_ok_def init_draws0_def)
  have h1: "list_all (gpu_op_ok (\<lambda>x. x)) [Scrape 0 (\<lambda>h. gpu_draws0)]"
    by (simp add: draws0_ok)
  have h2: "list_all (gpu_op_ok (\<lambda>x. x)) [LoopPass 5 (\<lambda>h. gpu_draws0), HealthCheck]"
    by (simp add: draws0_ok)
  from energy_never_decreases [OF rounding_id i h1 h2] rounding_id i h1 h2
  show ?thesis by blast
qed

text \<open>
  The claim C4 as stated has each pass add the power times the interval that has elapsed.
  A scrape and a pass of the loop at the same clock reading, so with no time elapsed
  between them, add 754000 mJ each for a power of 150.8 W, where power times elapsed
  time is 0.
\<close>

theorem energy_added_without_elapsed_time:
  "map (\<lambda>(h, state). (h, energy state))
       (gpu_states (gpu_run (\<lambda>x. x) [Scrape 0 (\<lambda>h. gpu_draws0)] sim0)) =
     [(''dgx-spark-01'', 754000), (''dgx-spark-02'', 754000)] \<and>
   map (\<lambda>(h, state). (h, energy state))
       (gpu_states (gpu_run (\<lambda>x. x) [Scrape 0 (\<lambda>h. gpu_draws0), LoopPass 0 (\<lambda>h. gpu_draws0)] sim0)) =
     [(''dgx-spark-01'', 1508000), (''dgx-spark-02'', 1508000)] \<and>
   map (\<lambda>(h, state). (h, v_power (compute (\<lambda>x. x) 0 gpu_draws0 state) * (0 - 0) * 1000))
       (gpu_states (gpu_run (\<lambda>x. x) [Scrape 0 (\<lambda>h. gpu_draws0)] sim0)) =
     [(''dgx-spark-01'', 0), (''dgx-spark-02'', 0)] \<and>
   map (\<lambda>(h, state). (h, v_power (compute (\<lambda>x. x) 0 gpu_draws0 state)))
       (gpu_states (gpu_run (\<lambda>x. x) [Scrape 0 (\<lambda>h. gpu_draws0)] sim0)) =
     [(''dgx-spark-01'', 150.8), (''dgx-spark-02'', 150.8)]"
proof -
  have n: "map fst (gpu_states (gpu_run (\<lambda>x. x) [Scrape 0 (\<lambda>h. gpu_draws0)] sim0)) =
      [''dgx-spark-01'', ''dgx-spark-02'']"
    using arg_cong[OF energy_example(1), of "map fst"] by (simp add: case_prod_beta comp_def)
  have d: "distinct (map fst (gpu_states sim0))"
    by (simp add: sim0_states)
  have p: "map (\<lambda>(h, state). (h, v_power (compute (\<lambda>x. x) 0 gpu_draws0 state)))
       (gpu_states (gpu_run (\<lambda>x. x) [Scrape 0 (\<lambda>h. gpu_draws0)] sim0)) =
     [(''dgx-spark-01'', 150.8), (''dgx-spark-02'', 150.8)]"
    by (simp add: gpu_exec_steps update_metrics_states[OF d] sim0_states power_example
        del: gpu_exec.simps)
  have z: "map (\<lambda>(h, state). (h, v_power (compute (\<lambda>x. x) 0 gpu_draws0 state) * (0 - 0) * 1000))
       (gpu_states (gpu_run (\<lambda>x. x) [Scrape 0 (\<lambda>h. gpu_draws0)] sim0)) =
     map (\<lambda>h. (h, 0)) (map fst (gpu_states (gpu_run (\<lambda>x. x) [Scrape 0 (\<lambda>h. gpu_draws0)] sim0)))"
    by (simp add: case_prod_beta comp_def)
  show ?thesis
    using energy_example p z[unfolded n] by simp
qed

end
